theory Spec2Isabelle
  imports Complex_Main "HOL-Library.AList"
begin

section \<open>JavaScript numbers\<close>

text \<open>
  The engine computes with JavaScript numbers. They are modelled as the reals extended
  by \<open>Infinity\<close>, \<open>-Infinity\<close> and \<open>NaN\<close>, with exact arithmetic on the finite
  part: rounding and the sign of zero are not modelled (a zero divisor counts as \<open>+0\<close>).
  Division by zero, \<open>Infinity\<close> (the default \<open>maxSpeed\<close>) and the comparisons with
  \<open>NaN\<close> (always false) behave as in the language.
\<close>

datatype jsnum = Fin real | PInf | NInf | NaN

instantiation jsnum :: "{zero, one, plus, uminus, minus, times, inverse, abs, ord}"
begin

definition zero_jsnum :: jsnum where
  "zero_jsnum = Fin 0"

definition one_jsnum :: jsnum where
  "one_jsnum = Fin 1"

fun plus_jsnum :: "jsnum \<Rightarrow> jsnum \<Rightarrow> jsnum" where
  "plus_jsnum (Fin a) (Fin b) = Fin (a + b)"
| "plus_jsnum NaN _ = NaN"
| "plus_jsnum _ NaN = NaN"
| "plus_jsnum PInf NInf = NaN"
| "plus_jsnum NInf PInf = NaN"
| "plus_jsnum PInf _ = PInf"
| "plus_jsnum _ PInf = PInf"
| "plus_jsnum NInf _ = NInf"
| "plus_jsnum _ NInf = NInf"

fun uminus_jsnum :: "jsnum \<Rightarrow> jsnum" where
  "uminus_jsnum (Fin a) = Fin (- a)"
| "uminus_jsnum PInf = NInf"
| "uminus_jsnum NInf = PInf"
| "uminus_jsnum NaN = NaN"

definition minus_jsnum :: "jsnum \<Rightarrow> jsnum \<Rightarrow> jsnum" where
  "minus_jsnum a b = a + (- b)"

fun times_jsnum :: "jsnum \<Rightarrow> jsnum \<Rightarrow> jsnum" where
  "times_jsnum (Fin a) (Fin b) = Fin (a * b)"
| "times_jsnum NaN _ = NaN"
| "times_jsnum _ NaN = NaN"
| "times_jsnum (Fin a) PInf = (if a = 0 then NaN else if 0 < a then PInf else NInf)"
| "times_jsnum (Fin a) NInf = (if a = 0 then NaN else if 0 < a then NInf else PInf)"
| "times_jsnum PInf (Fin b) = (if b = 0 then NaN else if 0 < b then PInf else NInf)"
| "times_jsnum NInf (Fin b) = (if b = 0 then NaN else if 0 < b then NInf else PInf)"
| "times_jsnum PInf PInf = PInf"
| "times_jsnum PInf NInf = NInf"
| "times_jsnum NInf PInf = NInf"
| "times_jsnum NInf NInf = PInf"

fun divide_jsnum :: "jsnum \<Rightarrow> jsnum \<Rightarrow> jsnum" where
  "divide_jsnum (Fin a) (Fin b) =
     (if b = 0 then (if a = 0 then NaN else if 0 < a then PInf else NInf) else Fin (a / b))"
| "divide_jsnum NaN _ = NaN"
| "divide_jsnum _ NaN = NaN"
| "divide_jsnum (Fin a) PInf = Fin 0"
| "divide_jsnum (Fin a) NInf = Fin 0"
| "divide_jsnum PInf (Fin b) = (if 0 \<le> b then PInf else NInf)"
| "divide_jsnum NInf (Fin b) = (if 0 \<le> b then NInf else PInf)"
| "divide_jsnum PInf PInf = NaN"
| "divide_jsnum PInf NInf = NaN"
| "divide_jsnum NInf PInf = NaN"
| "divide_jsnum NInf NInf = NaN"

fun inverse_jsnum :: "jsnum \<Rightarrow> jsnum" where
  "inverse_jsnum (Fin a) = (if a = 0 then PInf else Fin (1 / a))"
| "inverse_jsnum PInf = Fin 0"
| "inverse_jsnum NInf = Fin 0"
| "inverse_jsnum NaN = NaN"

fun abs_jsnum :: "jsnum \<Rightarrow> jsnum" where
  "abs_jsnum (Fin a) = Fin \<bar>a\<bar>"
| "abs_jsnum PInf = PInf"
| "abs_jsnum NInf = PInf"
| "abs_jsnum NaN = NaN"

fun less_jsnum :: "jsnum \<Rightarrow> jsnum \<Rightarrow> bool" where
  "less_jsnum (Fin a) (Fin b) = (a < b)"
| "less_jsnum NaN _ = False"
| "less_jsnum _ NaN = False"
| "less_jsnum _ NInf = False"
| "less_jsnum PInf _ = False"
| "less_jsnum NInf _ = True"
| "less_jsnum _ PInf = True"

fun less_eq_jsnum :: "jsnum \<Rightarrow> jsnum \<Rightarrow> bool" where
  "less_eq_jsnum (Fin a) (Fin b) = (a \<le> b)"
| "less_eq_jsnum NaN _ = False"
| "less_eq_jsnum _ NaN = False"
| "less_eq_jsnum NInf _ = True"
| "less_eq_jsnum _ PInf = True"
| "less_eq_jsnum _ NInf = False"
| "less_eq_jsnum PInf _ = False"

instance ..

end

text \<open>\<open>Math.sqrt\<close>, \<open>Math.min\<close> and \<open>Math.max\<close>.\<close>

fun Math_sqrt :: "jsnum \<Rightarrow> jsnum" where
  "Math_sqrt (Fin a) = (if a < 0 then NaN else Fin (sqrt a))"
| "Math_sqrt PInf = PInf"
| "Math_sqrt NInf = NaN"
| "Math_sqrt NaN = NaN"

definition Math_min :: "jsnum \<Rightarrow> jsnum \<Rightarrow> jsnum" where
  "Math_min a b = (if a = NaN \<or> b = NaN then NaN else if a < b then a else b)"

definition Math_max :: "jsnum \<Rightarrow> jsnum \<Rightarrow> jsnum" where
  "Math_max a b = (if a = NaN \<or> b = NaN then NaN else if a < b then b else a)"

section \<open>Exceptions\<close>

text \<open>
  A call either returns or throws. A throw does not undo the writes made before it, so
  both outcomes carry the state reached.
\<close>

datatype js_error = ReferenceError string | TypeError string | Error string

datatype 'a completion = Returns 'a | Throws js_error 'a

section \<open>The physics data model\<close>

text \<open>
  \<open>Transform.js\<close>. The fields \<open>x\<close>, \<open>y\<close>, \<open>z\<close> are named \<open>pos_x\<close>, \<open>pos_y\<close>,
  \<open>pos_z\<close>. \<open>parent\<close> holds the value of \<open>this.parent.getWorldPosition()\<close>, \<open>None\<close>
  for \<open>null\<close>: a parent is not itself moved by the physics pass. The list \<open>children\<close>
  and the base class's \<open>enabled\<close> flag are not read by the physics code and are left out.
\<close>

record point =
  pt_x :: jsnum
  pt_y :: jsnum

record transform =
  pos_x :: jsnum
  pos_y :: jsnum
  pos_z :: jsnum
  rotation :: jsnum
  scaleX :: jsnum
  scaleY :: jsnum
  anchorX :: jsnum
  anchorY :: jsnum
  parent :: "point option"

record force =
  force_x :: jsnum
  force_y :: jsnum
  duration :: jsnum
  elapsed :: jsnum

record impulse =
  impulse_x :: jsnum
  impulse_y :: jsnum

text \<open>
  The object \<open>performShapeCollision\<close> returns, and the object literal
  \<open>PhysicsSystem.checkCollision\<close> builds for the second body (it has no \<open>point\<close>).
\<close>

record collision =
  normalX :: jsnum
  normalY :: jsnum
  depth :: jsnum
  point :: "point option"

text \<open>
  An entry of \<open>Physics.collisions\<close>. \<open>other\<close> is a reference to the other body's
  Physics component, modelled by the id of the entity that owns it.
\<close>

record collision_record =
  other :: string
  rec_normalX :: jsnum
  rec_normalY :: jsnum
  rec_depth :: jsnum

text \<open>\<open>Physics.js\<close>: the fields the constructor sets, under their own names.\<close>

record physics =
  velocityX :: jsnum
  velocityY :: jsnum
  velocityZ :: jsnum
  accelerationX :: jsnum
  accelerationY :: jsnum
  accelerationZ :: jsnum
  angularVelocity :: jsnum
  angularAcceleration :: jsnum
  mass :: jsnum
  friction :: jsnum
  airResistance :: jsnum
  gravityX :: jsnum
  gravityY :: jsnum
  gravityScale :: jsnum
  collisionEnabled :: bool
  collisionGroup :: string
  collisionMask :: "string list"
  collisionShape :: string
  collisionWidth :: jsnum
  collisionHeight :: jsnum
  collisionRadius :: jsnum
  collisionPolygon :: "point list"
  maxSpeed :: jsnum
  minSpeed :: jsnum
  bounceFactor :: jsnum
  isKinematic :: bool
  isStatic :: bool
  isSleeping :: bool
  collisions :: "collision_record list"
  isColliding :: bool
  forces :: "force list"
  impulses :: "impulse list"

text \<open>
  An entity matched by the PhysicsSystem: it is enabled and owns a Transform and a
  Physics component (\<open>System.matches\<close>), so both \<open>getComponent\<close> calls succeed.
\<close>

record body =
  body_id :: string
  body_transform :: transform
  body_physics :: physics

text \<open>The object \<open>getBounds\<close> returns, and the world bounds \<open>{x, y, width, height}\<close>.\<close>

record bounds =
  b_x :: jsnum
  b_y :: jsnum
  b_width :: jsnum
  b_height :: jsnum

record collision_pair =
  entityA :: string
  entityB :: string
  pair_collision :: collision

text \<open>
  \<open>PhysicsSystem.js\<close>: the system's own fields and the \<open>enabled\<close> flag of the base
  class. Its gravity fields are named \<open>sys_gravityX\<close>, \<open>sys_gravityY\<close> and its
  \<open>collisionEnabled\<close> flag \<open>sys_collisionEnabled\<close>.
\<close>

record physics_system =
  sys_enabled :: bool
  sys_gravityX :: jsnum
  sys_gravityY :: jsnum
  worldBounds :: "bounds option"
  sys_collisionEnabled :: bool
  collisionPairs :: "collision_pair list"

text \<open>\<open>new Transform()\<close>, \<open>new Physics()\<close> and \<open>new PhysicsSystem(world)\<close>.\<close>

definition Transform_new :: transform where
  "Transform_new =
     \<lparr>pos_x = Fin 0, pos_y = Fin 0, pos_z = Fin 0, rotation = Fin 0, scaleX = Fin 1,
      scaleY = Fin 1, anchorX = Fin (1/2), anchorY = Fin (1/2), parent = None\<rparr>"

definition Physics_new :: physics where
  "Physics_new =
     \<lparr>velocityX = Fin 0, velocityY = Fin 0, velocityZ = Fin 0,
      accelerationX = Fin 0, accelerationY = Fin 0, accelerationZ = Fin 0,
      angularVelocity = Fin 0, angularAcceleration = Fin 0,
      mass = Fin 1, friction = Fin (1/10), airResistance = Fin (1/100),
      gravityX = Fin 0, gravityY = Fin 0, gravityScale = Fin 1,
      collisionEnabled = True, collisionGroup = ''default'', collisionMask = [''default''],
      collisionShape = ''rectangle'', collisionWidth = Fin 0, collisionHeight = Fin 0,
      collisionRadius = Fin 0, collisionPolygon = [],
      maxSpeed = PInf, minSpeed = Fin 0, bounceFactor = Fin (1/2),
      isKinematic = False, isStatic = False, isSleeping = False,
      collisions = [], isColliding = False, forces = [], impulses = []\<rparr>"

definition PhysicsSystem_new :: physics_system where
  "PhysicsSystem_new =
     \<lparr>sys_enabled = True, sys_gravityX = Fin 0, sys_gravityY = Fin 980, worldBounds = None,
      sys_collisionEnabled = True, collisionPairs = []\<rparr>"

section \<open>Transform and Physics\<close>

definition Transform_getWorldPosition :: "transform \<Rightarrow> point" where
  "Transform_getWorldPosition t =
     (case parent t of
        Some parentWorldPos \<Rightarrow>
          \<lparr>pt_x = pt_x parentWorldPos + pos_x t, pt_y = pt_y parentWorldPos + pos_y t\<rparr>
      | None \<Rightarrow> \<lparr>pt_x = pos_x t, pt_y = pos_y t\<rparr>)"

text \<open>\<open>setGravity(gx, gy)\<close>: the third parameter defaults to \<open>this.gravityScale\<close>.\<close>

definition Physics_setGravity :: "jsnum \<Rightarrow> jsnum \<Rightarrow> physics \<Rightarrow> physics" where
  "Physics_setGravity gx gy p = p\<lparr>gravityX := gx, gravityY := gy, gravityScale := gravityScale p\<rparr>"

definition Physics_clearCollisions :: "physics \<Rightarrow> physics" where
  "Physics_clearCollisions p = p\<lparr>isColliding := False, collisions := []\<rparr>"

text \<open>The bodies of the two \<open>forEach\<close> loops of \<open>Physics.update\<close>.\<close>

definition apply_impulse :: "physics \<Rightarrow> impulse \<Rightarrow> physics" where
  "apply_impulse p i =
     p\<lparr>velocityX := velocityX p + impulse_x i / mass p,
       velocityY := velocityY p + impulse_y i / mass p\<rparr>"

definition apply_force :: "jsnum \<Rightarrow> physics \<times> force list \<Rightarrow> force \<Rightarrow> physics \<times> force list" where
  "apply_force deltaTime acc f =
     (case acc of (p, activeForces) \<Rightarrow>
        let p1 = p\<lparr>accelerationX := accelerationX p + force_x f / mass p,
                   accelerationY := accelerationY p + force_y f / mass p\<rparr>;
            f1 = f\<lparr>elapsed := elapsed f + deltaTime\<rparr>
        in (p1, if duration f1 = Fin 0 \<or> elapsed f1 < duration f1
                then activeForces @ [f1] else activeForces))"

text \<open>
  \<open>Physics.update(deltaTime, transform)\<close>. Each block of the method is one function
  below, in the order of the source; \<open>Physics_update\<close> chains them.
\<close>

definition apply_gravity :: "physics \<Rightarrow> physics" where
  "apply_gravity p =
     (if \<not> isKinematic p
      then p\<lparr>accelerationX := accelerationX p + gravityX p * gravityScale p,
             accelerationY := accelerationY p + gravityY p * gravityScale p\<rparr>
      else p)"

definition apply_impulses :: "physics \<Rightarrow> physics" where
  "apply_impulses p = (foldl apply_impulse p (impulses p))\<lparr>impulses := []\<rparr>"

definition apply_forces :: "jsnum \<Rightarrow> physics \<Rightarrow> physics" where
  "apply_forces deltaTime p =
     (case foldl (apply_force deltaTime) (p, []) (forces p) of
        (p1, activeForces) \<Rightarrow> p1\<lparr>forces := activeForces\<rparr>)"

definition update_velocity :: "jsnum \<Rightarrow> physics \<Rightarrow> physics" where
  "update_velocity deltaTime p =
     p\<lparr>velocityX := velocityX p + accelerationX p * deltaTime,
       velocityY := velocityY p + accelerationY p * deltaTime\<rparr>"

definition apply_friction :: "physics \<Rightarrow> physics" where
  "apply_friction p =
     (if \<not> isKinematic p
      then let fr = (if isColliding p then friction p else airResistance p)
           in p\<lparr>velocityX := velocityX p * (Fin 1 - fr),
                  velocityY := velocityY p * (Fin 1 - fr)\<rparr>
      else p)"

definition current_speed :: "physics \<Rightarrow> jsnum" where
  "current_speed p = Math_sqrt (velocityX p * velocityX p + velocityY p * velocityY p)"

text \<open>Both tests of the block read the \<open>speed\<close> computed before it.\<close>

definition limit_speed :: "jsnum \<Rightarrow> physics \<Rightarrow> physics" where
  "limit_speed speed p =
     (let p1 = (if maxSpeed p < speed
                then let ratio = maxSpeed p / speed
                     in p\<lparr>velocityX := velocityX p * ratio, velocityY := velocityY p * ratio\<rparr>
                else p)
      in if speed < minSpeed p1 then p1\<lparr>velocityX := Fin 0, velocityY := Fin 0\<rparr> else p1)"

definition update_angular_velocity :: "jsnum \<Rightarrow> physics \<Rightarrow> physics" where
  "update_angular_velocity deltaTime p =
     p\<lparr>angularVelocity := angularVelocity p + angularAcceleration p * deltaTime\<rparr>"

definition update_position :: "jsnum \<Rightarrow> physics \<Rightarrow> transform \<Rightarrow> transform" where
  "update_position deltaTime p t =
     (if \<not> isStatic p
      then t\<lparr>pos_x := pos_x t + velocityX p * deltaTime,
             pos_y := pos_y t + velocityY p * deltaTime,
             rotation := rotation t + angularVelocity p * deltaTime\<rparr>
      else t)"

definition reset_acceleration :: "physics \<Rightarrow> physics" where
  "reset_acceleration p =
     (if forces p = []
      then p\<lparr>accelerationX := Fin 0, accelerationY := Fin 0, angularAcceleration := Fin 0\<rparr>
      else p)"

definition check_sleep :: "jsnum \<Rightarrow> physics \<Rightarrow> physics" where
  "check_sleep speed p =
     (if speed < Fin (1/10) \<and> \<bar>angularVelocity p\<bar> < Fin (1/10)
      then p\<lparr>isSleeping := True\<rparr> else p)"

definition Physics_update :: "jsnum \<Rightarrow> transform \<times> physics \<Rightarrow> transform \<times> physics" where
  "Physics_update deltaTime tp =
     (case tp of (t, p) \<Rightarrow>
        if isSleeping p \<or> isStatic p then (t, p)
        else
          let p1 = apply_friction
                     (update_velocity deltaTime
                        (apply_forces deltaTime (apply_impulses (apply_gravity p))));
              speed = current_speed p1;
              p2 = update_angular_velocity deltaTime (limit_speed speed p1);
              t1 = update_position deltaTime p2 t
          in (t1, check_sleep speed (reset_acceleration p2)))"

text \<open>\<open>getBounds\<close>: a \<open>switch\<close> on the shape string, with its \<open>default\<close> case.\<close>

definition polygon_extent :: "point \<Rightarrow> jsnum \<times> jsnum \<times> jsnum \<times> jsnum \<Rightarrow> point
    \<Rightarrow> jsnum \<times> jsnum \<times> jsnum \<times> jsnum" where
  "polygon_extent worldPos acc pt =
     (case acc of (minX, minY, maxX, maxY) \<Rightarrow>
        let worldX = pt_x worldPos + pt_x pt;
            worldY = pt_y worldPos + pt_y pt
        in (Math_min minX worldX, Math_min minY worldY, Math_max maxX worldX, Math_max maxY worldY))"

definition Physics_getBounds :: "physics \<Rightarrow> transform \<Rightarrow> bounds" where
  "Physics_getBounds p t =
     (let worldPos = Transform_getWorldPosition t in
      if collisionShape p = ''rectangle'' then
        \<lparr>b_x = pt_x worldPos - collisionWidth p / Fin 2,
         b_y = pt_y worldPos - collisionHeight p / Fin 2,
         b_width = collisionWidth p, b_height = collisionHeight p\<rparr>
      else if collisionShape p = ''circle'' then
        \<lparr>b_x = pt_x worldPos - collisionRadius p,
         b_y = pt_y worldPos - collisionRadius p,
         b_width = collisionRadius p * Fin 2, b_height = collisionRadius p * Fin 2\<rparr>
      else if collisionShape p = ''polygon'' then
        (case foldl (polygon_extent worldPos) (PInf, PInf, NInf, NInf) (collisionPolygon p) of
           (minX, minY, maxX, maxY) \<Rightarrow>
             \<lparr>b_x = minX, b_y = minY, b_width = maxX - minX, b_height = maxY - minY\<rparr>)
      else \<lparr>b_x = pt_x worldPos, b_y = pt_y worldPos, b_width = Fin 0, b_height = Fin 0\<rparr>)"

text \<open>\<open>performShapeCollision\<close>: \<open>None\<close> is the \<open>null\<close> it returns for no collision.\<close>

definition Physics_performShapeCollision ::
    "physics \<Rightarrow> physics \<Rightarrow> transform \<Rightarrow> transform \<Rightarrow> collision option" where
  "Physics_performShapeCollision this otherp t otherTransform =
     (let pos1 = Transform_getWorldPosition t;
          pos2 = Transform_getWorldPosition otherTransform;
          dx = pt_x pos2 - pt_x pos1;
          dy = pt_y pos2 - pt_y pos1;
          distance = Math_sqrt (dx * dx + dy * dy)
      in if collisionShape this = ''circle'' \<and> collisionShape otherp = ''circle''
         then let radiusSum = collisionRadius this + collisionRadius otherp
              in if distance < radiusSum
                 then Some \<lparr>normalX = dx / distance, normalY = dy / distance,
                            depth = radiusSum - distance,
                            point = Some \<lparr>pt_x = pt_x pos1 + (dx / distance) * collisionRadius this,
                                          pt_y = pt_y pos1 + (dy / distance) * collisionRadius this\<rparr>\<rparr>
                 else None
         else None)"

definition Physics_checkCollision ::
    "physics \<Rightarrow> physics \<Rightarrow> transform \<Rightarrow> transform \<Rightarrow> collision option" where
  "Physics_checkCollision this otherp t otherTransform =
     (if \<not> collisionEnabled this then None
      else if \<not> collisionEnabled otherp then None
      else if \<not> (collisionGroup otherp \<in> set (collisionMask this)) then None
      else if \<not> (collisionGroup this \<in> set (collisionMask otherp)) then None
      else
        let bounds1 = Physics_getBounds this t;
            bounds2 = Physics_getBounds otherp otherTransform
        in if b_x bounds1 + b_width bounds1 < b_x bounds2 \<or>
              b_x bounds2 + b_width bounds2 < b_x bounds1 \<or>
              b_y bounds1 + b_height bounds1 < b_y bounds2 \<or>
              b_y bounds2 + b_height bounds2 < b_y bounds1
           then None
           else Physics_performShapeCollision this otherp t otherTransform)"

text \<open>
  The identifiers bound at the top level of the module \<open>Physics.js\<close>: its one import
  (\<open>import Component from '../core/Component.js'\<close>) and the class it declares. Reading
  any other free identifier of the module throws a ReferenceError.
\<close>

definition Physics_module_bindings :: "string list" where
  "Physics_module_bindings = [''Component'', ''Physics'']"

definition resolves :: "string list \<Rightarrow> string \<Rightarrow> bool" where
  "resolves bindings ident = (ident \<in> set bindings)"

text \<open>
  \<open>handleCollision(collision, other)\<close> on the Physics component of body \<open>b\<close>; \<open>other_id\<close>
  names the entity of \<open>other\<close>. The argument \<open>Transform\<close> of
  \<open>this.entity.getComponent(Transform)\<close> is evaluated before the call, in the scope of
  \<open>Physics.js\<close>; the writes to \<open>isColliding\<close> and \<open>collisions\<close> come before it. The
  entity of a body owns a Transform, so where the identifier resolves the guard
  \<open>if (transform)\<close> holds.
\<close>

definition Physics_handleCollision :: "collision option \<Rightarrow> string \<Rightarrow> body \<Rightarrow> body completion" where
  "Physics_handleCollision collision_arg other_id b =
     (case collision_arg of
        None \<Rightarrow> Returns b
      | Some c \<Rightarrow>
          let p = body_physics b;
              p1 = p\<lparr>isColliding := True,
                     collisions := collisions p @
                       [\<lparr>other = other_id, rec_normalX = normalX c, rec_normalY = normalY c,
                         rec_depth = depth c\<rparr>]\<rparr>;
              b1 = b\<lparr>body_physics := p1\<rparr>
          in if \<not> isStatic p1 \<and> \<not> isKinematic p1
             then if \<not> resolves Physics_module_bindings ''Transform''
                  then Throws (ReferenceError ''Transform'') b1
                  else
                    let t = body_transform b1;
                        t1 = t\<lparr>pos_x := pos_x t + normalX c * depth c * Fin (1/2),
                               pos_y := pos_y t + normalY c * depth c * Fin (1/2)\<rparr>;
                        dotProduct = velocityX p1 * normalX c + velocityY p1 * normalY c;
                        p2 = p1\<lparr>velocityX := velocityX p1 -
                                  normalX c * dotProduct * (Fin 1 + bounceFactor p1)\<rparr>;
                        p3 = p2\<lparr>velocityY := velocityY p2 -
                                  normalY c * dotProduct * (Fin 1 + bounceFactor p2)\<rparr>
                    in Returns (b1\<lparr>body_transform := t1, body_physics := p3\<rparr>)
             else Returns b1)"

section \<open>PhysicsSystem\<close>

text \<open>
  The system works on \<open>entities = this.getMatchingEntities()\<close>, an array of the matched
  entities in registry order: the list of bodies. Components are objects mutated in place;
  the model passes the list along and writes a changed body back at its index.
\<close>

definition PhysicsSystem_updateEntityPhysics :: "physics_system \<Rightarrow> jsnum \<Rightarrow> body \<Rightarrow> body" where
  "PhysicsSystem_updateEntityPhysics sys deltaTime b =
     (let t = body_transform b; p = body_physics b in
      if isStatic p \<or> isSleeping p then b
      else
        let p1 = (if \<not> isKinematic p
                  then Physics_setGravity (sys_gravityX sys) (sys_gravityY sys) p else p)
        in case Physics_update deltaTime (t, p1) of
             (t2, p2) \<Rightarrow> b\<lparr>body_transform := t2, body_physics := p2\<rparr>)"

text \<open>
  \<open>checkCollision(entityA, entityB)\<close> for \<open>entities[i]\<close> and \<open>entities[j]\<close>. The
  operands of \<open>||\<close> are tested in turn. The loops of
  \<open>detectCollisions\<close> only pass indices \<open>i < j < entities.length\<close>; reading past the end
  gives \<open>undefined\<close>, whose \<open>getComponent\<close> is a TypeError.
\<close>

definition PhysicsSystem_checkCollision ::
    "nat \<Rightarrow> nat \<Rightarrow> physics_system \<times> body list \<Rightarrow> (physics_system \<times> body list) completion" where
  "PhysicsSystem_checkCollision i j st =
     (case st of (sys, entities) \<Rightarrow>
        if \<not> (i < length entities \<and> j < length entities)
        then Throws (TypeError ''getComponent'') st
        else
          let entA = entities ! i; entB = entities ! j;
              physicsA = body_physics entA; physicsB = body_physics entB;
              transformA = body_transform entA; transformB = body_transform entB
          in if \<not> collisionEnabled physicsA then Returns st
             else if \<not> collisionEnabled physicsB then Returns st
             else
               case Physics_checkCollision physicsA physicsB transformA transformB of
                 None \<Rightarrow> Returns st
               | Some c \<Rightarrow>
                   (case Physics_handleCollision (Some c) (body_id entB) entA of
                      Throws e entA1 \<Rightarrow> Throws e (sys, entities[i := entA1])
                    | Returns entA1 \<Rightarrow>
                        (case Physics_handleCollision
                                (Some \<lparr>normalX = - normalX c, normalY = - normalY c,
                                       depth = depth c, point = None\<rparr>)
                                (body_id entA1) entB of
                           Throws e entB1 \<Rightarrow> Throws e (sys, entities[i := entA1, j := entB1])
                         | Returns entB1 \<Rightarrow>
                             Returns
                               (sys\<lparr>collisionPairs := collisionPairs sys @
                                      [\<lparr>entityA = body_id entA1, entityB = body_id entB1,
                                        pair_collision = c\<rparr>]\<rparr>,
                                entities[i := entA1, j := entB1]))))"

text \<open>
  \<open>detectCollisions\<close>: the pairs \<open>(i, j)\<close> with \<open>i < j\<close> in the order of the two nested
  \<open>for\<close> loops; a throw ends the loops.
\<close>

definition index_pairs :: "nat \<Rightarrow> (nat \<times> nat) list" where
  "index_pairs n = concat (map (\<lambda>i. map (\<lambda>j. (i, j)) [Suc i..<n]) [0..<n])"

fun check_pairs ::
    "(nat \<times> nat) list \<Rightarrow> physics_system \<times> body list \<Rightarrow> (physics_system \<times> body list) completion" where
  "check_pairs [] st = Returns st"
| "check_pairs (ij # rest) st =
     (case PhysicsSystem_checkCollision (fst ij) (snd ij) st of
        Throws e st1 \<Rightarrow> Throws e st1
      | Returns st1 \<Rightarrow> check_pairs rest st1)"

definition PhysicsSystem_detectCollisions ::
    "physics_system \<times> body list \<Rightarrow> (physics_system \<times> body list) completion" where
  "PhysicsSystem_detectCollisions st =
     (case st of (sys, entities) \<Rightarrow>
        check_pairs (index_pairs (length entities)) (sys\<lparr>collisionPairs := []\<rparr>, entities))"

text \<open>
  \<open>checkWorldBounds(entity)\<close>, called only where \<open>this.worldBounds\<close> is set. \<open>bounds\<close>
  is computed once, before the four tests (left, right, top, bottom), each one function
  below.
\<close>

definition check_left :: "bounds \<Rightarrow> bounds \<Rightarrow> transform \<times> physics \<Rightarrow> transform \<times> physics" where
  "check_left wb bnds tp =
     (case tp of (t, p) \<Rightarrow>
        if b_x bnds < b_x wb
        then (t\<lparr>pos_x := b_x wb + b_width bnds / Fin 2\<rparr>,
              p\<lparr>velocityX := \<bar>velocityX p\<bar> * bounceFactor p\<rparr>)
        else (t, p))"

definition check_right :: "bounds \<Rightarrow> bounds \<Rightarrow> transform \<times> physics \<Rightarrow> transform \<times> physics" where
  "check_right wb bnds tp =
     (case tp of (t, p) \<Rightarrow>
        if b_x wb + b_width wb < b_x bnds + b_width bnds
        then (t\<lparr>pos_x := b_x wb + b_width wb - b_width bnds / Fin 2\<rparr>,
              p\<lparr>velocityX := - \<bar>velocityX p\<bar> * bounceFactor p\<rparr>)
        else (t, p))"

definition check_top :: "bounds \<Rightarrow> bounds \<Rightarrow> transform \<times> physics \<Rightarrow> transform \<times> physics" where
  "check_top wb bnds tp =
     (case tp of (t, p) \<Rightarrow>
        if b_y bnds < b_y wb
        then (t\<lparr>pos_y := b_y wb + b_height bnds / Fin 2\<rparr>,
              p\<lparr>velocityY := \<bar>velocityY p\<bar> * bounceFactor p\<rparr>)
        else (t, p))"

definition check_bottom :: "bounds \<Rightarrow> bounds \<Rightarrow> transform \<times> physics \<Rightarrow> transform \<times> physics" where
  "check_bottom wb bnds tp =
     (case tp of (t, p) \<Rightarrow>
        if b_y wb + b_height wb < b_y bnds + b_height bnds
        then (t\<lparr>pos_y := b_y wb + b_height wb - b_height bnds / Fin 2\<rparr>,
              p\<lparr>velocityY := - \<bar>velocityY p\<bar> * bounceFactor p\<rparr>)
        else (t, p))"

definition PhysicsSystem_checkWorldBounds :: "bounds \<Rightarrow> body \<Rightarrow> body" where
  "PhysicsSystem_checkWorldBounds wb b =
     (let t = body_transform b; p = body_physics b in
      if isStatic p then b
      else
        let bnds = Physics_getBounds p t in
        case check_bottom wb bnds (check_top wb bnds (check_right wb bnds (check_left wb bnds (t, p)))) of
          (t1, p1) \<Rightarrow> b\<lparr>body_transform := t1, body_physics := p1\<rparr>)"

definition clear_body :: "body \<Rightarrow> body" where
  "clear_body b = b\<lparr>body_physics := Physics_clearCollisions (body_physics b)\<rparr>"

text \<open>
  \<open>PhysicsSystem.update(deltaTime)\<close>: integrate every body, detect collisions, clamp to the
  world bounds, clear the collision state. A throw in the detection pass leaves the
  method at once, so the two later loops do not run.
\<close>

definition PhysicsSystem_update ::
    "jsnum \<Rightarrow> physics_system \<times> body list \<Rightarrow> (physics_system \<times> body list) completion" where
  "PhysicsSystem_update deltaTime st =
     (case st of (sys, entities) \<Rightarrow>
        if \<not> sys_enabled sys then Returns st
        else
          let entities1 = map (PhysicsSystem_updateEntityPhysics sys deltaTime) entities in
          case (if sys_collisionEnabled sys
                then PhysicsSystem_detectCollisions (sys, entities1)
                else Returns (sys, entities1)) of
            Throws e st2 \<Rightarrow> Throws e st2
          | Returns (sys2, entities2) \<Rightarrow>
              let entities3 = (case worldBounds sys2 of
                                 Some wb \<Rightarrow> map (PhysicsSystem_checkWorldBounds wb) entities2
                               | None \<Rightarrow> entities2)
              in Returns (sys2, map clear_body entities3))"

text \<open>
  Successive frames, one \<open>PhysicsSystem.update\<close> per frame with that frame's
  \<open>deltaTime\<close>. The repository has two kinds of host. \<open>gameLoop\<close> in \<open>main.js\<close> schedules
  the next frame only after \<open>loop()\<close> has returned, so an exception ends the run.
  \<open>Timer.tick\<close> and \<open>FrameTimer.loop\<close> (\<open>engine/utils/Timer.js\<close>) call the frame callback
  inside \<open>try\<close>/\<open>catch\<close>, log the error and go on to the next frame, which starts from
  the state the throw left behind. \<open>run_frames\<close> carries the errors thrown so far, in
  order, and the state after the last frame run.
\<close>

datatype host = GameLoop | FrameTimer

fun run_frames ::
    "host \<Rightarrow> jsnum list \<Rightarrow> js_error list \<times> physics_system \<times> body list
      \<Rightarrow> js_error list \<times> physics_system \<times> body list" where
  "run_frames h [] r = r"
| "run_frames h (deltaTime # rest) r =
     (case PhysicsSystem_update deltaTime (snd r) of
        Returns st1 \<Rightarrow> run_frames h rest (fst r, st1)
      | Throws e st1 \<Rightarrow>
          (case h of
             GameLoop \<Rightarrow> (fst r @ [e], st1)
           | FrameTimer \<Rightarrow> run_frames h rest (fst r @ [e], st1)))"

text \<open>\<open>n\<close> calls of \<open>Physics.update\<close> with the same \<open>deltaTime\<close>.\<close>

fun integrate :: "nat \<Rightarrow> jsnum \<Rightarrow> transform \<times> physics \<Rightarrow> transform \<times> physics" where
  "integrate 0 deltaTime tp = tp"
| "integrate (Suc n) deltaTime tp = Physics_update deltaTime (integrate n deltaTime tp)"

section \<open>Entity, System and World\<close>

text \<open>
  \<open>Entity.js\<close>. A component type is identified by its class name
  (\<open>componentClass.name\<close>, or the string itself), so the argument \<open>componentClass\<close> is
  modelled by that name. \<open>components\<close> is a JavaScript \<open>Map\<close>: an association list in
  insertion order. The component objects are opaque here (type \<open>'c\<close>).
\<close>

record 'c entity =
  ent_id :: string
  components :: "(string \<times> 'c) list"
  tags :: "string list"
  ent_enabled :: bool

definition Entity_addComponent :: "string \<Rightarrow> 'c \<Rightarrow> 'c entity \<Rightarrow> 'c entity" where
  "Entity_addComponent componentName component e =
     e\<lparr>components := AList.update componentName component (components e)\<rparr>"

definition Entity_hasComponent :: "string \<Rightarrow> 'c entity \<Rightarrow> bool" where
  "Entity_hasComponent componentName e = (map_of (components e) componentName \<noteq> None)"

text \<open>
  \<open>removeComponent\<close> returns whether a component was removed. The write
  \<open>component.entity = null\<close> goes to the detached component, which the entity no longer
  holds.
\<close>

definition Entity_removeComponent :: "string \<Rightarrow> 'c entity \<Rightarrow> bool \<times> 'c entity" where
  "Entity_removeComponent componentName e =
     (case map_of (components e) componentName of
        Some component \<Rightarrow> (True, e\<lparr>components := AList.delete componentName (components e)\<rparr>)
      | None \<Rightarrow> (False, e))"

text \<open>
  The base class \<open>System\<close> (\<open>src/unnamed/part_004\<close>): \<open>sys_name\<close> is \<open>getName()\<close>, the
  class name; \<open>requiredComponents\<close> lists component classes, again by name. Priorities
  are finite numbers.
\<close>

record system =
  sys_name :: string
  enabled :: bool
  priority :: real
  requiredComponents :: "string list"

definition System_matches :: "system \<Rightarrow> 'c entity \<Rightarrow> bool" where
  "System_matches sys e =
     (if \<not> ent_enabled e then False
      else list_all (\<lambda>ComponentClass. Entity_hasComponent ComponentClass e) (requiredComponents sys))"

text \<open>
  What the world does to its systems and listeners is recorded in a trace: the hooks it
  calls on a system (named by the system and, for the entity hooks, the entity id), the
  \<open>update\<close> calls with their \<open>deltaTime\<close>, and the events it emits with the name of the
  entity or system they carry.
\<close>

datatype call =
    Init string
  | OnEntityAdded string string
  | OnEntityRemoved string string
  | Update string real
  | Emit string string

text \<open>
  \<open>World.js\<close>. \<open>entities\<close> and \<open>systems\<close> are \<open>Map\<close>s, keyed by entity id and by system
  name, in insertion order. An entity registered in the world is the object the world
  holds, so a method called on it changes the world's entry.
\<close>

record 'c world =
  world_name :: string
  entities :: "(string \<times> 'c entity) list"
  systems :: "(string \<times> system) list"
  entityCounter :: nat
  isRunning :: bool
  lastUpdateTime :: real
  trace :: "call list"

definition World_getEntities :: "'c world \<Rightarrow> 'c entity list" where
  "World_getEntities w = map snd (entities w)"

definition World_getSystems :: "'c world \<Rightarrow> system list" where
  "World_getSystems w = map snd (systems w)"

definition System_getMatchingEntities :: "system \<Rightarrow> 'c world \<Rightarrow> 'c entity list" where
  "System_getMatchingEntities sys w = filter (\<lambda>e. System_matches sys e) (World_getEntities w)"

definition World_addEntity :: "'c entity \<Rightarrow> 'c world \<Rightarrow> bool \<times> 'c world" where
  "World_addEntity e w =
     (if map_of (entities w) (ent_id e) \<noteq> None then (False, w)
      else
        let w1 = w\<lparr>entities := entities w @ [(ent_id e, e)], entityCounter := Suc (entityCounter w)\<rparr>;
            hooks = map (\<lambda>sys. OnEntityAdded (sys_name sys) (ent_id e))
                      (filter (\<lambda>sys. System_matches sys e) (World_getSystems w1))
        in (True, w1\<lparr>trace := trace w1 @ hooks @ [Emit ''entityAdded'' (ent_id e)]\<rparr>))"

definition World_addSystem :: "system \<Rightarrow> 'c world \<Rightarrow> bool \<times> 'c world" where
  "World_addSystem sys w =
     (let systemName = sys_name sys in
      if map_of (systems w) systemName \<noteq> None then (False, w)
      else
        let w1 = w\<lparr>systems := systems w @ [(systemName, sys)]\<rparr>;
            hooks = map (\<lambda>e. OnEntityAdded systemName (ent_id e))
                      (filter (\<lambda>e. System_matches sys e) (World_getEntities w1))
        in (True, w1\<lparr>trace := trace w1 @ [Init systemName] @ hooks @
                                  [Emit ''systemAdded'' systemName]\<rparr>))"

text \<open>
  \<open>removeEntity\<close>, called with an entity id. \<open>entity.destroy()\<close> empties the removed
  entity, which the world no longer holds.
\<close>

definition World_removeEntity :: "string \<Rightarrow> 'c world \<Rightarrow> bool \<times> 'c world" where
  "World_removeEntity entityId w =
     (case map_of (entities w) entityId of
        None \<Rightarrow> (False, w)
      | Some e \<Rightarrow>
          let hooks = map (\<lambda>sys. OnEntityRemoved (sys_name sys) (ent_id e))
                        (filter (\<lambda>sys. System_matches sys e) (World_getSystems w))
          in (True, w\<lparr>entities := AList.delete entityId (entities w),
                      trace := trace w @ hooks @ [Emit ''entityRemoved'' (ent_id e)]\<rparr>))"

text \<open>
  \<open>world.getEntity(entityId).removeComponent(componentClass)\<close>: the call of
  \<open>Entity.removeComponent\<close> on a registered entity. \<open>getEntity\<close> returns \<open>null\<close> for an
  unknown id, and the method call on it is a TypeError.
\<close>

definition World_entity_removeComponent ::
    "string \<Rightarrow> string \<Rightarrow> 'c world \<Rightarrow> (bool \<times> 'c world) completion" where
  "World_entity_removeComponent entityId componentName w =
     (case map_of (entities w) entityId of
        None \<Rightarrow> Throws (TypeError ''removeComponent'') (False, w)
      | Some e \<Rightarrow>
          (case Entity_removeComponent componentName e of
             (removed, e1) \<Rightarrow> Returns (removed, w\<lparr>entities := AList.update entityId e1 (entities w)\<rparr>)))"

text \<open>
  \<open>World.update(currentTime)\<close>. The \<open>update\<close> methods belong to the subclasses of
  \<open>System\<close>; \<open>run sys deltaTime\<close> stands for the method of \<open>sys\<close>, acting on the state
  \<open>'g\<close> the systems work on (components and whatever else they own). The methods do not
  register, remove, enable or disable systems while the pass runs. \<open>Array.prototype.sort\<close>
  with the comparator \<open>a.getPriority() - b.getPriority()\<close> is a stable sort by priority.
\<close>

fun update_systems ::
    "(system \<Rightarrow> real \<Rightarrow> 'g \<Rightarrow> 'g completion) \<Rightarrow> real \<Rightarrow> system list \<Rightarrow> call list \<times> 'g
      \<Rightarrow> (call list \<times> 'g) completion" where
  "update_systems run deltaTime [] st = Returns st"
| "update_systems run deltaTime (sys # rest) st =
     (if enabled sys
      then (case run sys deltaTime (snd st) of
              Throws e g1 \<Rightarrow> Throws e (fst st @ [Update (sys_name sys) deltaTime], g1)
            | Returns g1 \<Rightarrow>
                update_systems run deltaTime rest (fst st @ [Update (sys_name sys) deltaTime], g1))
      else update_systems run deltaTime rest st)"

definition World_update ::
    "(system \<Rightarrow> real \<Rightarrow> 'g \<Rightarrow> 'g completion) \<Rightarrow> real \<Rightarrow> 'c world \<times> 'g
      \<Rightarrow> ('c world \<times> 'g) completion" where
  "World_update run currentTime st =
     (case st of (w, g) \<Rightarrow>
        if \<not> isRunning w then Returns st
        else
          let deltaTime = (currentTime - lastUpdateTime w) / 1000;
              w1 = w\<lparr>lastUpdateTime := currentTime\<rparr>;
              sortedSystems = sort_key priority (World_getSystems w1)
          in case update_systems run deltaTime sortedSystems (trace w1, g) of
               Throws e (tr, g1) \<Rightarrow> Throws e (w1\<lparr>trace := tr\<rparr>, g1)
             | Returns (tr, g1) \<Rightarrow>
                 Returns (w1\<lparr>trace := tr @ [Emit ''worldUpdated'' []]\<rparr>, g1))"

text \<open>The systems whose \<open>update\<close> a trace records, in the order of the calls.\<close>

fun updated_systems :: "call list \<Rightarrow> string list" where
  "updated_systems [] = []"
| "updated_systems (Update n dt # cs) = n # updated_systems cs"
| "updated_systems (c # cs) = updated_systems cs"

text \<open>The state a call ends in, returned or thrown.\<close>

fun state_of :: "'a completion \<Rightarrow> 'a" where
  "state_of (Returns s) = s"
| "state_of (Throws e s) = s"

text \<open>How often a trace records \<open>onEntityRemoved(entity)\<close> on a system.\<close>

definition removed_calls :: "string \<Rightarrow> string \<Rightarrow> call list \<Rightarrow> nat" where
  "removed_calls systemName entityId tr = count_list tr (OnEntityRemoved systemName entityId)"

text \<open>
  What it is to invoke the \<open>update\<close> methods of a list of systems in the order of the
  list, each on the state the one before left: the systems whose method was called (up to
  and including one that throws) and the state reached.
\<close>

fun run_in_order ::
    "(system \<Rightarrow> real \<Rightarrow> 'g \<Rightarrow> 'g completion) \<Rightarrow> real \<Rightarrow> system list \<Rightarrow> 'g
      \<Rightarrow> (system list \<times> 'g) completion" where
  "run_in_order run deltaTime [] g = Returns ([], g)"
| "run_in_order run deltaTime (sys # rest) g =
     (case run sys deltaTime g of
        Throws e g1 \<Rightarrow> Throws e ([sys], g1)
      | Returns g1 \<Rightarrow>
          (case run_in_order run deltaTime rest g1 of
             Throws e r \<Rightarrow> Throws e (sys # fst r, snd r)
           | Returns r \<Rightarrow> Returns (sys # fst r, snd r)))"

section \<open>Auxiliary notions and example scenes\<close>

text \<open>
  The relation between a body before and after a step that the frame property of static
  bodies needs: the flag \<open>isStatic\<close> is kept, and a static body keeps its transform.
\<close>

definition keeps_static :: "body \<Rightarrow> body \<Rightarrow> bool" where
  "keeps_static b b1 =
     (isStatic (body_physics b1) = isStatic (body_physics b) \<and>
      (if isStatic (body_physics b) then body_transform b1 = body_transform b else True))"

text \<open>A body with a circle shape: \<open>new Transform({x, y})\<close> and
  \<open>new Physics({collisionShape: 'circle', collisionRadius: r})\<close>.\<close>

definition circle_body :: "string \<Rightarrow> real \<Rightarrow> real \<Rightarrow> real \<Rightarrow> body" where
  "circle_body ident cx cy r =
     \<lparr>body_id = ident,
      body_transform = Transform_new\<lparr>pos_x := Fin cx, pos_y := Fin cy\<rparr>,
      body_physics = Physics_new\<lparr>collisionShape := ''circle'', collisionRadius := Fin r\<rparr>\<rparr>"

text \<open>
  The scene of the specification's example: a circle of radius 10 at the origin moving
  right at 100 units per second, and a circle of radius 15 whose centre is 20 units to
  its right. Their kinematic variants, a static and a sleeping body, a rectangle of world
  bounds, and a frame time of 1/60 s.
\<close>

definition ballA :: body where
  "ballA = (circle_body ''a'' 0 0 10)
     \<lparr>body_physics := (body_physics (circle_body ''a'' 0 0 10))\<lparr>velocityX := Fin 100\<rparr>\<rparr>"

definition ballB :: body where
  "ballB = circle_body ''b'' 20 0 15"

definition kinematicA :: body where
  "kinematicA = (circle_body ''a'' 0 0 10)
     \<lparr>body_physics := (body_physics (circle_body ''a'' 0 0 10))\<lparr>isKinematic := True\<rparr>\<rparr>"

definition kinematicB :: body where
  "kinematicB = (circle_body ''b'' 20 0 15)
     \<lparr>body_physics := (body_physics (circle_body ''b'' 20 0 15))\<lparr>isKinematic := True\<rparr>\<rparr>"

definition wall :: body where
  "wall = (circle_body ''wall'' 0 0 10)
     \<lparr>body_physics := (body_physics (circle_body ''wall'' 0 0 10))\<lparr>isStatic := True\<rparr>\<rparr>"

definition sleeper :: body where
  "sleeper = (circle_body ''sleeper'' 50 50 10)
     \<lparr>body_physics := (body_physics (circle_body ''sleeper'' 50 50 10))
        \<lparr>isSleeping := True, velocityY := Fin 5\<rparr>\<rparr>"

definition box :: bounds where
  "box = \<lparr>b_x = Fin 5, b_y = Fin 5, b_width = Fin 100, b_height = Fin 100\<rparr>"

definition frame_time :: jsnum where
  "frame_time = Fin (1/60)"

text \<open>
  A body in free fall along the y axis: awake, dynamic, not colliding, no queued impulses
  or forces, no horizontal motion or gravity, no spin, and no speed limits (\<open>maxSpeed\<close>
  is \<open>Infinity\<close>, \<open>minSpeed\<close> is 0, the constructor's defaults).
\<close>

definition free_fall :: "physics \<Rightarrow> bool" where
  "free_fall p =
     (\<not> isSleeping p \<and> \<not> isStatic p \<and> \<not> isKinematic p \<and> \<not> isColliding p \<and>
      impulses p = [] \<and> forces p = [] \<and> velocityX p = Fin 0 \<and> accelerationX p = Fin 0 \<and>
      gravityX p = Fin 0 \<and> maxSpeed p = PInf \<and> minSpeed p = Fin 0 \<and>
      angularVelocity p = Fin 0 \<and> angularAcceleration p = Fin 0)"

text \<open>
  A body whose own gravity is set to (0, 100) by \<open>physics.setGravity(0, 100)\<close>, and the
  body of the integration example: acceleration (0, 980), mass 1, friction 0, at rest.
\<close>

definition own_gravity_body :: body where
  "own_gravity_body =
     \<lparr>body_id = ''g'', body_transform = Transform_new,
      body_physics = Physics_setGravity (Fin 0) (Fin 100) Physics_new\<rparr>"

definition accelerated :: physics where
  "accelerated = Physics_new\<lparr>accelerationY := Fin 980, mass := Fin 1, friction := Fin 0\<rparr>"

text \<open>
  A body put to sleep by the sleep test, and a body after \<open>handleCollision\<close> has flagged
  it and appended its one record (normal \<open>(nx, 0)\<close>, depth 5).
\<close>

definition asleep :: "body \<Rightarrow> body" where
  "asleep b = b\<lparr>body_physics := (body_physics b)\<lparr>isSleeping := True\<rparr>\<rparr>"

definition struck :: "string \<Rightarrow> real \<Rightarrow> body \<Rightarrow> body" where
  "struck other_id nx b =
     b\<lparr>body_physics := (body_physics b)
        \<lparr>isColliding := True,
         collisions := [\<lparr>other = other_id, rec_normalX = Fin nx, rec_normalY = Fin 0,
                         rec_depth = Fin 5\<rparr>]\<rparr>\<rparr>"

text \<open>The contact of the two circles of the example scene, and the pair the system records.\<close>

definition contact :: collision where
  "contact = \<lparr>normalX = Fin 1, normalY = Fin 0, depth = Fin 5,
              point = Some \<lparr>pt_x = Fin 10, pt_y = Fin 0\<rparr>\<rparr>"

definition contact_pair :: collision_pair where
  "contact_pair = \<lparr>entityA = ''a'', entityB = ''b'', pair_collision = contact\<rparr>"

text \<open>
  The second circle of the example scene after one frame on its own: it has fallen for
  1/60 s under the system's gravity, damped by its air resistance.
\<close>

definition fallen :: body where
  "fallen = ballB
     \<lparr>body_transform := (body_transform ballB)\<lparr>pos_y := Fin (1617/6000)\<rparr>,
      body_physics := (body_physics ballB)\<lparr>velocityY := Fin (1617/100), gravityY := Fin 980\<rparr>\<rparr>"

text \<open>
  A world for the examples. Its entity owns components of the classes \<open>A\<close> and \<open>B\<close>; the
  system \<open>Move\<close> requires both. The four systems of \<open>scheduled_world\<close> were registered in
  the order \<open>Render\<close> (priority 100), \<open>Input\<close> (10), \<open>Move\<close> (50), \<open>Score\<close> (50).
\<close>

definition player :: "unit entity" where
  "player = \<lparr>ent_id = ''e1'', components = [(''A'', ()), (''B'', ())], tags = [], ent_enabled = True\<rparr>"

definition named_system :: "string \<Rightarrow> real \<Rightarrow> system" where
  "named_system n pr = \<lparr>sys_name = n, enabled = True, priority = pr, requiredComponents = [''A'', ''B'']\<rparr>"

definition example_world :: "unit world" where
  "example_world =
     \<lparr>world_name = ''DefaultWorld'', entities = [(''e1'', player)],
      systems = [(''Move'', named_system ''Move'' 50)],
      entityCounter = 1, isRunning = True, lastUpdateTime = 0, trace = []\<rparr>"

definition scheduled_world :: "unit world" where
  "scheduled_world =
     \<lparr>world_name = ''DefaultWorld'', entities = [],
      systems = [(''Render'', named_system ''Render'' 100), (''Input'', named_system ''Input'' 10),
                 (''Move'', named_system ''Move'' 50), (''Score'', named_system ''Score'' 50)],
      entityCounter = 0, isRunning = True, lastUpdateTime = 0, trace = []\<rparr>"

text \<open>
  An \<open>update\<close> method that appends the name of its system to a shared list, so that the
  list shows which methods ran and in which order.
\<close>

definition logging_update :: "system \<Rightarrow> real \<Rightarrow> string list \<Rightarrow> string list completion" where
  "logging_update sys deltaTime g = Returns (g @ [sys_name sys])"

text \<open>
  The first circle of the example scene after the integration of one frame under the
  system's gravity (velocity (99, 16.17), position (1.65, 0.2695)), and the same body as
  the throwing \<open>handleCollision\<close> leaves it: flagged, with the record of its contact with
  the second circle (normal (1, 0), depth 25 - 18.35).
\<close>

definition movedA :: body where
  "movedA = ballA
     \<lparr>body_transform := (body_transform ballA)\<lparr>pos_x := Fin (33/20), pos_y := Fin (1617/6000)\<rparr>,
      body_physics := (body_physics ballA)
        \<lparr>velocityX := Fin 99, velocityY := Fin (1617/100), gravityY := Fin 980\<rparr>\<rparr>"

definition flaggedA :: body where
  "flaggedA = movedA
     \<lparr>body_physics := (body_physics movedA)
        \<lparr>isColliding := True,
         collisions := [\<lparr>other = ''b'', rec_normalX = Fin 1, rec_normalY = Fin 0,
                         rec_depth = Fin (133/20)\<rparr>]\<rparr>\<rparr>"

section \<open>Static and sleeping bodies\<close>

lemma Physics_update_static: "isStatic p \<Longrightarrow> Physics_update dt (t, p) = (t, p)"
  by (simp add: Physics_update_def)

lemma Physics_update_sleeping: "isSleeping p \<Longrightarrow> Physics_update dt (t, p) = (t, p)"
  by (simp add: Physics_update_def)

lemma updateEntityPhysics_skip:
  "isStatic (body_physics b) \<or> isSleeping (body_physics b) \<Longrightarrow> PhysicsSystem_updateEntityPhysics sys dt b = b"
  by (auto simp add: PhysicsSystem_updateEntityPhysics_def Let_def)

lemma handleCollision_static:
  "isStatic (body_physics b) \<or> isKinematic (body_physics b) \<Longrightarrow>
   Physics_handleCollision (Some c) oid b =
     Returns (b\<lparr>body_physics := (body_physics b)\<lparr>isColliding := True,
        collisions := collisions (body_physics b) @
           [\<lparr>other = oid, rec_normalX = normalX c, rec_normalY = normalY c, rec_depth = depth c\<rparr>]\<rparr>\<rparr>)"
  by (auto simp add: Physics_handleCollision_def Let_def)

lemma handleCollision_dynamic:
  "\<not> isStatic (body_physics b) \<Longrightarrow> \<not> isKinematic (body_physics b) \<Longrightarrow>
   Physics_handleCollision (Some c) oid b =
     Throws (ReferenceError ''Transform'') (b\<lparr>body_physics := (body_physics b)\<lparr>isColliding := True,
        collisions := collisions (body_physics b) @
           [\<lparr>other = oid, rec_normalX = normalX c, rec_normalY = normalY c, rec_depth = depth c\<rparr>]\<rparr>\<rparr>)"
  by (simp add: Physics_handleCollision_def Let_def resolves_def Physics_module_bindings_def)

lemma checkWorldBounds_static:
  "isStatic (body_physics b) \<Longrightarrow> PhysicsSystem_checkWorldBounds wb b = b"
  by (simp add: PhysicsSystem_checkWorldBounds_def Let_def)

lemma foldl_apply_impulse_isStatic: "isStatic (foldl apply_impulse p is) = isStatic p"
  by (induction "is" arbitrary: p) (simp_all add: apply_impulse_def)

lemma foldl_apply_force_isStatic:
  "isStatic (fst (foldl (apply_force dt) (p, act) fs)) = isStatic p"
  by (induction fs arbitrary: p act) (simp_all add: apply_force_def Let_def)

lemma apply_forces_isStatic: "isStatic (apply_forces dt p) = isStatic p"
  using foldl_apply_force_isStatic [of dt p "[]" "forces p"]
  by (simp add: apply_forces_def case_prod_beta)

lemma stages_isStatic:
  "isStatic (apply_gravity p) = isStatic p"
  "isStatic (apply_impulses p) = isStatic p"
  "isStatic (update_velocity dt p) = isStatic p"
  "isStatic (apply_friction p) = isStatic p"
  "isStatic (limit_speed sp p) = isStatic p"
  "isStatic (update_angular_velocity dt p) = isStatic p"
  "isStatic (reset_acceleration p) = isStatic p"
  "isStatic (check_sleep sp p) = isStatic p"
  by (simp_all add: apply_gravity_def apply_impulses_def foldl_apply_impulse_isStatic
      update_velocity_def apply_friction_def limit_speed_def update_angular_velocity_def
      reset_acceleration_def check_sleep_def Let_def)

lemma Physics_update_isStatic: "isStatic (snd (Physics_update dt (t, p))) = isStatic p"
  by (simp add: Physics_update_def Let_def stages_isStatic apply_forces_isStatic)

lemma keeps_static_refl: "keeps_static b b"
  by (simp add: keeps_static_def)

lemma keeps_static_trans: "keeps_static a b \<Longrightarrow> keeps_static b c \<Longrightarrow> keeps_static a c"
  by (auto simp add: keeps_static_def split: if_splits)

lemma keeps_static_updateEntityPhysics:
  "keeps_static b (PhysicsSystem_updateEntityPhysics sys dt b)"
proof (cases "isStatic (body_physics b) \<or> isSleeping (body_physics b)")
  case True
  then show ?thesis by (simp add: updateEntityPhysics_skip keeps_static_refl)
next
  case False
  then show ?thesis
    using Physics_update_isStatic [of dt "body_transform b"]
    by (simp add: PhysicsSystem_updateEntityPhysics_def Let_def keeps_static_def
        Physics_setGravity_def case_prod_beta)
qed

lemma keeps_static_handleCollision:
  "keeps_static b (state_of (Physics_handleCollision c oid b))"
proof (cases c)
  case None
  then show ?thesis by (simp add: Physics_handleCollision_def keeps_static_refl)
next
  case (Some col)
  show ?thesis
  proof (cases "isStatic (body_physics b) \<or> isKinematic (body_physics b)")
    case True
    then show ?thesis unfolding Some
      by (simp only: handleCollision_static) (simp add: keeps_static_def)
  next
    case False
    then show ?thesis unfolding Some
      by (simp add: handleCollision_dynamic keeps_static_def)
  qed
qed

lemma check_stages_isStatic:
  "isStatic (snd (check_left wb bn (t, p))) = isStatic p"
  "isStatic (snd (check_right wb bn (t, p))) = isStatic p"
  "isStatic (snd (check_top wb bn (t, p))) = isStatic p"
  "isStatic (snd (check_bottom wb bn (t, p))) = isStatic p"
  by (simp_all add: check_left_def check_right_def check_top_def check_bottom_def)

lemma check_stages_isStatic':
  "isStatic (snd (check_left wb bn tp)) = isStatic (snd tp)"
  "isStatic (snd (check_right wb bn tp)) = isStatic (snd tp)"
  "isStatic (snd (check_top wb bn tp)) = isStatic (snd tp)"
  "isStatic (snd (check_bottom wb bn tp)) = isStatic (snd tp)"
  by (cases tp, simp add: check_stages_isStatic)+

lemma keeps_static_checkWorldBounds:
  "keeps_static b (PhysicsSystem_checkWorldBounds wb b)"
proof (cases "isStatic (body_physics b)")
  case True
  then show ?thesis by (simp add: checkWorldBounds_static keeps_static_refl)
next
  case False
  have "isStatic (snd (check_bottom wb bn (check_top wb bn (check_right wb bn
          (check_left wb bn (body_transform b, body_physics b)))))) = isStatic (body_physics b)" for bn
    by (simp add: check_stages_isStatic')
  then show ?thesis using False
    by (simp add: PhysicsSystem_checkWorldBounds_def Let_def keeps_static_def case_prod_beta)
qed

lemma keeps_static_clear: "keeps_static b (clear_body b)"
  by (simp add: clear_body_def Physics_clearCollisions_def keeps_static_def)


lemma list_all2_keeps_static_refl: "list_all2 keeps_static bs bs"
  by (simp add: list_all2_refl keeps_static_refl)

lemma list_all2_keeps_static_trans:
  "list_all2 keeps_static as bs \<Longrightarrow> list_all2 keeps_static bs cs \<Longrightarrow> list_all2 keeps_static as cs"
  using list_all2_trans [of keeps_static keeps_static keeps_static] keeps_static_trans by blast

lemma list_all2_keeps_static_update:
  "i < length bs \<Longrightarrow> keeps_static (bs ! i) b1 \<Longrightarrow> list_all2 keeps_static bs (bs[i := b1])"
  by (simp add: list_all2_conv_all_nth nth_list_update keeps_static_refl)

lemma list_all2_keeps_static_update2:
  assumes "i < length bs" "j < length bs" "i \<noteq> j"
    and "keeps_static (bs ! i) b1" "keeps_static (bs ! j) b2"
  shows "list_all2 keeps_static bs (bs[i := b1, j := b2])"
  using assms by (auto simp add: list_all2_conv_all_nth nth_list_update keeps_static_refl)

lemma list_all2_keeps_static_map:
  "(\<And>b. keeps_static b (f b)) \<Longrightarrow> list_all2 keeps_static bs (map f bs)"
  by (simp add: list_all2_conv_all_nth)

lemma keeps_static_checkCollision:
  assumes "i \<noteq> j"
  shows "list_all2 keeps_static bs (snd (state_of (PhysicsSystem_checkCollision i j (sys, bs))))"
proof (cases "i < length bs \<and> j < length bs")
  case False
  then show ?thesis
    by (simp add: PhysicsSystem_checkCollision_def list_all2_keeps_static_refl)
next
  case True
  note ij = True
  show ?thesis
  proof (cases "\<not> collisionEnabled (body_physics (bs ! i)) \<or> \<not> collisionEnabled (body_physics (bs ! j))")
    case True
    then show ?thesis using ij
      by (auto simp add: PhysicsSystem_checkCollision_def Let_def list_all2_keeps_static_refl)
  next
    case False
    note en = False
    show ?thesis
    proof (cases "Physics_checkCollision (body_physics (bs ! i)) (body_physics (bs ! j))
                    (body_transform (bs ! i)) (body_transform (bs ! j))")
      case None
      then show ?thesis using ij en
        by (simp add: PhysicsSystem_checkCollision_def Let_def list_all2_keeps_static_refl)
    next
      case (Some c)
      let ?rA = "Physics_handleCollision (Some c) (body_id (bs ! j)) (bs ! i)"
      have kA: "keeps_static (bs ! i) (state_of ?rA)" by (rule keeps_static_handleCollision)
      show ?thesis
      proof (cases ?rA)
        case (Throws e a1)
        then show ?thesis using ij en Some kA
          by (simp add: PhysicsSystem_checkCollision_def Let_def list_all2_keeps_static_update)
      next
        case (Returns a1)
        let ?rB = "Physics_handleCollision
                     (Some \<lparr>normalX = - normalX c, normalY = - normalY c, depth = depth c, point = None\<rparr>)
                     (body_id a1) (bs ! j)"
        have kB: "keeps_static (bs ! j) (state_of ?rB)" by (rule keeps_static_handleCollision)
        have kA1: "keeps_static (bs ! i) a1" using kA Returns by simp
        show ?thesis
        proof (cases ?rB)
          case (Throws e b1)
          then show ?thesis using ij en Some Returns kA1 kB assms
            by (simp add: PhysicsSystem_checkCollision_def Let_def list_all2_keeps_static_update2)
        next
          case (Returns b1)
          then show ?thesis using ij en Some \<open>?rA = Returns a1\<close> kA1 kB assms
            by (simp add: PhysicsSystem_checkCollision_def Let_def list_all2_keeps_static_update2)
        qed
      qed
    qed
  qed
qed

lemma keeps_static_check_pairs:
  "list_all (\<lambda>ij. fst ij \<noteq> snd ij) ps \<Longrightarrow>
   list_all2 keeps_static bs (snd (state_of (check_pairs ps (sys, bs))))"
proof (induction ps arbitrary: sys bs)
  case Nil
  then show ?case by (simp add: list_all2_keeps_static_refl)
next
  case (Cons ij ps)
  have ne: "fst ij \<noteq> snd ij" and rest: "list_all (\<lambda>ij. fst ij \<noteq> snd ij) ps"
    using Cons.prems by simp_all
  let ?r = "PhysicsSystem_checkCollision (fst ij) (snd ij) (sys, bs)"
  have k1: "list_all2 keeps_static bs (snd (state_of ?r))"
    by (rule keeps_static_checkCollision [OF ne])
  show ?case
  proof (cases ?r)
    case (Throws e st1)
    then show ?thesis using k1 by simp
  next
    case (Returns st1)
    obtain sys1 bs1 where st1: "st1 = (sys1, bs1)" by (cases st1)
    have "list_all2 keeps_static bs1 (snd (state_of (check_pairs ps (sys1, bs1))))"
      by (rule Cons.IH [OF rest])
    moreover have "list_all2 keeps_static bs bs1" using k1 Returns st1 by simp
    ultimately show ?thesis using Returns st1
      by (simp add: list_all2_keeps_static_trans)
  qed
qed

lemma index_pairs_distinct: "list_all (\<lambda>ij. fst ij \<noteq> snd ij) (index_pairs n)"
  by (auto simp add: index_pairs_def list_all_iff)

lemma keeps_static_detectCollisions:
  "list_all2 keeps_static bs (snd (state_of (PhysicsSystem_detectCollisions (sys, bs))))"
  by (simp add: PhysicsSystem_detectCollisions_def keeps_static_check_pairs index_pairs_distinct)

lemma keeps_static_update:
  "list_all2 keeps_static bs (snd (state_of (PhysicsSystem_update dt (sys, bs))))"
proof (cases "sys_enabled sys")
  case False
  then show ?thesis by (simp add: PhysicsSystem_update_def list_all2_keeps_static_refl)
next
  case True
  let ?bs1 = "map (PhysicsSystem_updateEntityPhysics sys dt) bs"
  let ?r = "if sys_collisionEnabled sys then PhysicsSystem_detectCollisions (sys, ?bs1)
            else Returns (sys, ?bs1)"
  have k1: "list_all2 keeps_static bs ?bs1"
    by (rule list_all2_keeps_static_map) (rule keeps_static_updateEntityPhysics)
  have k2: "list_all2 keeps_static ?bs1 (snd (state_of ?r))"
    by (simp add: keeps_static_detectCollisions list_all2_keeps_static_refl)
  have k12: "list_all2 keeps_static bs (snd (state_of ?r))"
    by (rule list_all2_keeps_static_trans [OF k1 k2])
  show ?thesis
  proof (cases ?r)
    case (Throws e st2)
    then show ?thesis using True k12 by (simp add: PhysicsSystem_update_def Let_def)
  next
    case (Returns st2)
    obtain sys2 bs2 where st2: "st2 = (sys2, bs2)" by (cases st2)
    let ?bs3 = "case worldBounds sys2 of Some wb \<Rightarrow> map (PhysicsSystem_checkWorldBounds wb) bs2
                | None \<Rightarrow> bs2"
    have k3: "list_all2 keeps_static bs2 ?bs3"
      by (cases "worldBounds sys2")
         (simp_all add: list_all2_keeps_static_refl list_all2_keeps_static_map keeps_static_checkWorldBounds)
    have k4: "list_all2 keeps_static ?bs3 (map clear_body ?bs3)"
      by (rule list_all2_keeps_static_map) (rule keeps_static_clear)
    have "list_all2 keeps_static bs bs2" using k12 Returns st2 by simp
    then have "list_all2 keeps_static bs (map clear_body ?bs3)"
      using k3 k4 list_all2_keeps_static_trans by blast
    then show ?thesis using True Returns st2 by (simp add: PhysicsSystem_update_def Let_def)
  qed
qed

text \<open>
  Claim C9. A body with \<open>isStatic = true\<close> keeps its position through the integration
  step (\<open>Physics.update\<close>, \<open>updateEntityPhysics\<close>), through the collision response
  (\<open>handleCollision\<close>, whether it returns or throws), through the world-bounds clamp, and
  so through a whole \<open>PhysicsSystem.update\<close>; for a body with \<open>isSleeping = true\<close> the
  integration step leaves the transform and every physics field as they were.
\<close>

theorem static_sleeping_frame:
  "(isStatic (body_physics b) \<longrightarrow>
      Physics_update dt (body_transform b, body_physics b) = (body_transform b, body_physics b) \<and>
      PhysicsSystem_updateEntityPhysics sys dt b = b \<and>
      body_transform (state_of (Physics_handleCollision c oid b)) = body_transform b \<and>
      PhysicsSystem_checkWorldBounds wb b = b) \<and>
   (k < length bs \<and> isStatic (body_physics (bs ! k)) \<longrightarrow>
      body_transform (snd (state_of (PhysicsSystem_update dt (sys, bs))) ! k) = body_transform (bs ! k)) \<and>
   (isSleeping (body_physics b) \<longrightarrow>
      Physics_update dt (body_transform b, body_physics b) = (body_transform b, body_physics b) \<and>
      PhysicsSystem_updateEntityPhysics sys dt b = b)"
proof (intro conjI impI)
  assume st: "isStatic (body_physics b)"
  show "Physics_update dt (body_transform b, body_physics b) = (body_transform b, body_physics b)"
    using st by (rule Physics_update_static)
  show "PhysicsSystem_updateEntityPhysics sys dt b = b"
    using st by (simp add: updateEntityPhysics_skip)
  show "body_transform (state_of (Physics_handleCollision c oid b)) = body_transform b"
    using st keeps_static_handleCollision [of b c oid] by (simp add: keeps_static_def)
  show "PhysicsSystem_checkWorldBounds wb b = b"
    using st by (rule checkWorldBounds_static)
next
  assume "k < length bs \<and> isStatic (body_physics (bs ! k))"
  then show "body_transform (snd (state_of (PhysicsSystem_update dt (sys, bs))) ! k) = body_transform (bs ! k)"
    using keeps_static_update [of bs dt sys]
    by (auto simp add: list_all2_conv_all_nth keeps_static_def)
next
  assume sl: "isSleeping (body_physics b)"
  show "Physics_update dt (body_transform b, body_physics b) = (body_transform b, body_physics b)"
    using sl by (rule Physics_update_sleeping)
  show "PhysicsSystem_updateEntityPhysics sys dt b = b"
    using sl by (simp add: updateEntityPhysics_skip)
qed

theorem static_sleeping_frame_witness:
  "isStatic (body_physics wall) \<and>
   Physics_update frame_time (body_transform wall, body_physics wall) =
     (body_transform wall, body_physics wall) \<and>
   PhysicsSystem_updateEntityPhysics PhysicsSystem_new frame_time wall = wall \<and>
   body_transform (state_of (Physics_handleCollision
      (Some \<lparr>normalX = Fin (- 1), normalY = Fin 0, depth = Fin 5, point = None\<rparr>) ''b'' wall)) =
     body_transform wall \<and>
   PhysicsSystem_checkWorldBounds box wall = wall \<and>
   isStatic (body_physics ([ballA, wall] ! 1)) \<and>
   body_transform (snd (state_of (PhysicsSystem_update frame_time (PhysicsSystem_new, [ballA, wall]))) ! 1) =
     body_transform wall \<and>
   isSleeping (body_physics sleeper) \<and>
   Physics_update frame_time (body_transform sleeper, body_physics sleeper) =
     (body_transform sleeper, body_physics sleeper) \<and>
   PhysicsSystem_updateEntityPhysics PhysicsSystem_new frame_time sleeper = sleeper"
proof -
  have st: "isStatic (body_physics wall)"
    by (simp add: wall_def circle_body_def)
  have sl: "isSleeping (body_physics sleeper)"
    by (simp add: sleeper_def circle_body_def)
  have nth: "[ballA, wall] ! 1 = wall" by simp
  show ?thesis
    using st sl
      static_sleeping_frame [of wall frame_time PhysicsSystem_new
        "Some \<lparr>normalX = Fin (- 1), normalY = Fin 0, depth = Fin 5, point = None\<rparr>" "''b''" box
        1 "[ballA, wall]"]
      static_sleeping_frame [of sleeper frame_time PhysicsSystem_new]
    by (simp only: nth) simp
qed

section \<open>Integration under gravity\<close>

lemmas scene_defs = ballA_def ballB_def kinematicA_def kinematicB_def wall_def sleeper_def
  circle_body_def Transform_new_def Physics_new_def PhysicsSystem_new_def box_def frame_time_def

lemma current_speed_vertical:
  "velocityX p = Fin 0 \<Longrightarrow> velocityY p = Fin v \<Longrightarrow> current_speed p = Fin \<bar>v\<bar>"
  by (simp add: current_speed_def)

lemma free_fall_step:
  assumes ff: "free_fall p"
    and v: "velocityY p = Fin v" and a: "accelerationY p = Fin a"
    and g: "gravityY p = Fin g" and s: "gravityScale p = Fin s" and r: "airResistance p = Fin r"
    and y: "pos_y t = Fin y0" and x: "pos_x t = Fin x0" and rot: "rotation t = Fin r0"
    and awake: "1/10 \<le> \<bar>(v + (a + g * s) * h) * (1 - r)\<bar>"
  shows "Physics_update (Fin h) (t, p) =
           (t\<lparr>pos_y := Fin (y0 + (v + (a + g * s) * h) * (1 - r) * h)\<rparr>,
            p\<lparr>velocityY := Fin ((v + (a + g * s) * h) * (1 - r)), accelerationY := Fin 0\<rparr>)"
proof -
  let ?v1 = "(v + (a + g * s) * h) * (1 - r)"
  let ?p1 = "apply_friction (update_velocity (Fin h) (apply_forces (Fin h) (apply_impulses (apply_gravity p))))"
  have p1: "?p1 = p\<lparr>velocityY := Fin ?v1, accelerationY := Fin (a + g * s)\<rparr>"
    using ff v a g s r
    by (simp add: free_fall_def apply_gravity_def apply_impulses_def apply_forces_def
        update_velocity_def apply_friction_def minus_jsnum_def)
  have sp: "current_speed ?p1 = Fin \<bar>?v1\<bar>"
    unfolding p1 using ff by (simp add: current_speed_vertical free_fall_def)
  have p2: "update_angular_velocity (Fin h) (limit_speed (Fin \<bar>?v1\<bar>) ?p1) = ?p1"
    unfolding p1 using ff
    by (simp add: limit_speed_def update_angular_velocity_def free_fall_def)
  have t1: "update_position (Fin h) ?p1 t = t\<lparr>pos_y := Fin (y0 + ?v1 * h)\<rparr>"
    unfolding p1 using ff x y rot
    by (simp add: update_position_def free_fall_def)
  have p3: "check_sleep (Fin \<bar>?v1\<bar>) (reset_acceleration ?p1) =
              p\<lparr>velocityY := Fin ?v1, accelerationY := Fin 0\<rparr>"
    unfolding p1 using ff awake
    by (simp add: check_sleep_def reset_acceleration_def free_fall_def)
  show ?thesis
    using ff by (simp add: Physics_update_def Let_def sp p2 t1 p3 free_fall_def)
qed

lemma free_fall_update: "free_fall p \<Longrightarrow> free_fall (p\<lparr>velocityY := vy, accelerationY := ay\<rparr>)"
  by (simp add: free_fall_def)

lemma gravity_integration:
  assumes ff: "free_fall p"
    and v: "velocityY p = Fin 0" and a: "accelerationY p = Fin 0"
    and g: "gravityY p = Fin 980" and s: "gravityScale p = Fin 1" and r: "airResistance p = Fin 0"
    and y: "pos_y t = Fin y0" and x: "pos_x t = Fin x0" and rot: "rotation t = Fin r0"
  shows "integrate n (Fin (1/60)) (t, p) =
           (t\<lparr>pos_y := Fin (y0 + (\<Sum>k = 1..n. (980 * real k / 60) * (1/60)))\<rparr>,
            p\<lparr>velocityY := Fin (980 * real n / 60), accelerationY := Fin 0\<rparr>)"
proof (induction n)
  case 0
  have "t\<lparr>pos_y := Fin y0\<rparr> = t" using y by (metis transform.surjective transform.update_convs(2))
  moreover have "p\<lparr>velocityY := Fin 0, accelerationY := Fin 0\<rparr> = p"
    using v a by (metis physics.surjective physics.update_convs(2) physics.update_convs(5))
  ultimately show ?case by simp
next
  case (Suc n)
  let ?t = "t\<lparr>pos_y := Fin (y0 + (\<Sum>k = 1..n. (980 * real k / 60) * (1/60)))\<rparr>"
  let ?p = "p\<lparr>velocityY := Fin (980 * real n / 60), accelerationY := Fin 0\<rparr>"
  have step: "Physics_update (Fin (1/60)) (?t, ?p) =
      (?t\<lparr>pos_y := Fin ((y0 + (\<Sum>k = 1..n. (980 * real k / 60) * (1/60))) +
              (980 * real n / 60 + (0 + 980 * 1) * (1/60)) * (1 - 0) * (1/60))\<rparr>,
       ?p\<lparr>velocityY := Fin ((980 * real n / 60 + (0 + 980 * 1) * (1/60)) * (1 - 0)),
          accelerationY := Fin 0\<rparr>)"
  proof (rule free_fall_step)
    show "free_fall ?p" using ff by (rule free_fall_update)
    show "velocityY ?p = Fin (980 * real n / 60)" by simp
    show "accelerationY ?p = Fin 0" by simp
    show "gravityY ?p = Fin 980" using g by simp
    show "gravityScale ?p = Fin 1" using s by simp
    show "airResistance ?p = Fin 0" using r by simp
    show "pos_y ?t = Fin (y0 + (\<Sum>k = 1..n. (980 * real k / 60) * (1/60)))" by simp
    show "pos_x ?t = Fin x0" using x by simp
    show "rotation ?t = Fin r0" using rot by simp
    have "0 \<le> 980 * real n / 60" by simp
    then show "1/10 \<le> \<bar>(980 * real n / 60 + (0 + 980 * 1) * (1/60)) * (1 - 0)\<bar>" by simp
  qed
  have vel: "(980 * real n / 60 + (0 + 980 * 1) * (1/60)) * (1 - 0) = 980 * real (Suc n) / 60"
    by (simp add: field_simps)
  show ?case
    by (simp only: integrate.simps Suc.IH step) (simp add: field_simps)
qed

text \<open>
  Claim C5, as amended. Take a body in free fall that starts at rest with zero
  acceleration, whose gravity is (0, 980) with \<open>gravityScale\<close> 1 and whose
  \<open>airResistance\<close> is 0. After \<open>n\<close> calls of \<open>Physics.update\<close> with \<open>deltaTime = 1/60\<close>,
  in exact arithmetic, \<open>velocityY\<close> is \<open>980 * n / 60\<close> and the y position has grown by
  the sum of the per-step velocities times \<open>deltaTime\<close> (semi-implicit Euler: each step
  moves by the velocity it has just updated).
\<close>

theorem gravity_fall_velocity_position:
  assumes "free_fall p"
    and "velocityY p = Fin 0" and "accelerationY p = Fin 0"
    and "gravityY p = Fin 980" and "gravityScale p = Fin 1" and "airResistance p = Fin 0"
    and "pos_y t = Fin y0" and "pos_x t = Fin x0" and "rotation t = Fin r0"
  shows "velocityY (snd (integrate n (Fin (1/60)) (t, p))) = Fin (980 * real n / 60) \<and>
         pos_y (fst (integrate n (Fin (1/60)) (t, p))) =
           Fin (y0 + (\<Sum>k = 1..n. (980 * real k / 60) * (1/60)))"
  using gravity_integration [OF assms, of n] by simp

theorem gravity_fall_velocity_position_witness:
  "free_fall (Physics_new\<lparr>gravityY := Fin 980, airResistance := Fin 0\<rparr>) \<and>
   velocityY (snd (integrate 3 (Fin (1/60))
      (Transform_new, Physics_new\<lparr>gravityY := Fin 980, airResistance := Fin 0\<rparr>))) = Fin 49 \<and>
   pos_y (fst (integrate 3 (Fin (1/60))
      (Transform_new, Physics_new\<lparr>gravityY := Fin 980, airResistance := Fin 0\<rparr>))) = Fin (49/30)"
proof -
  have ff: "free_fall (Physics_new\<lparr>gravityY := Fin 980, airResistance := Fin 0\<rparr>)"
    by (simp add: free_fall_def Physics_new_def)
  have s: "(\<Sum>k = 1..(3::nat). (980 * real k / 60) * (1/60)) = 49/30"
    by (simp add: eval_nat_numeral)
  have tr: "pos_y Transform_new = Fin 0" "pos_x Transform_new = Fin 0" "rotation Transform_new = Fin 0"
    by (simp_all add: Transform_new_def)
  have ph: "velocityY (Physics_new\<lparr>gravityY := Fin 980, airResistance := Fin 0\<rparr>) = Fin 0"
    "accelerationY (Physics_new\<lparr>gravityY := Fin 980, airResistance := Fin 0\<rparr>) = Fin 0"
    "gravityY (Physics_new\<lparr>gravityY := Fin 980, airResistance := Fin 0\<rparr>) = Fin 980"
    "gravityScale (Physics_new\<lparr>gravityY := Fin 980, airResistance := Fin 0\<rparr>) = Fin 1"
    "airResistance (Physics_new\<lparr>gravityY := Fin 980, airResistance := Fin 0\<rparr>) = Fin 0"
    by (simp_all add: Physics_new_def)
  have inst: "velocityY (snd (integrate 3 (Fin (1/60))
        (Transform_new, Physics_new\<lparr>gravityY := Fin 980, airResistance := Fin 0\<rparr>))) =
          Fin (980 * real (3::nat) / 60) \<and>
      pos_y (fst (integrate 3 (Fin (1/60))
        (Transform_new, Physics_new\<lparr>gravityY := Fin 980, airResistance := Fin 0\<rparr>))) =
          Fin (0 + (\<Sum>k = 1..(3::nat). (980 * real k / 60) * (1/60)))"
    by (rule gravity_fall_velocity_position [OF ff ph tr])
  show ?thesis
    using ff inst by (simp only: s) simp
qed

text \<open>
  Claim C5 as stated fails. With the acceleration field set to (0, 980), mass 1,
  friction 0 and the constructor's other defaults, one step gives
  \<open>velocityY = 980/60 * (1 - airResistance) = 16.17\<close>, not \<open>980/60\<close>: a body that is not
  colliding is damped by \<open>airResistance\<close> (0.01 by default), and \<open>friction\<close> is not read.
  With \<open>airResistance\<close> 0 as well, the second step adds nothing: the acceleration is
  reset to zero at the end of every step that has no active force, and the body's own
  gravity is (0, 0).
\<close>

theorem acceleration_field_counterexample:
  "velocityY (snd (integrate 1 (Fin (1/60)) (Transform_new, accelerated))) = Fin (1617/100) \<and>
   (1617/100 :: real) \<noteq> 980 * 1 / 60 \<and>
   velocityY (snd (integrate 2 (Fin (1/60)) (Transform_new, accelerated\<lparr>airResistance := Fin 0\<rparr>))) = Fin (49/3) \<and>
   (49/3 :: real) \<noteq> 980 * 2 / 60"
proof -
  have ff: "free_fall accelerated" "free_fall (accelerated\<lparr>airResistance := Fin 0\<rparr>)"
    by (simp_all add: free_fall_def accelerated_def Physics_new_def)
  have one: "Physics_update (Fin (1/60)) (Transform_new, accelerated) =
      (Transform_new\<lparr>pos_y := Fin (0 + (0 + (980 + 0 * 1) * (1/60)) * (1 - 1/100) * (1/60))\<rparr>,
       accelerated\<lparr>velocityY := Fin ((0 + (980 + 0 * 1) * (1/60)) * (1 - 1/100)), accelerationY := Fin 0\<rparr>)"
    by (rule free_fall_step [OF ff(1)]) (simp_all add: accelerated_def Physics_new_def Transform_new_def)
  let ?q = "accelerated\<lparr>airResistance := Fin 0\<rparr>"
  have first: "Physics_update (Fin (1/60)) (Transform_new, ?q) =
      (Transform_new\<lparr>pos_y := Fin (0 + (0 + (980 + 0 * 1) * (1/60)) * (1 - 0) * (1/60))\<rparr>,
       ?q\<lparr>velocityY := Fin ((0 + (980 + 0 * 1) * (1/60)) * (1 - 0)), accelerationY := Fin 0\<rparr>)"
    by (rule free_fall_step [OF ff(2)]) (simp_all add: accelerated_def Physics_new_def Transform_new_def)
  let ?t1 = "Transform_new\<lparr>pos_y := Fin (0 + (0 + (980 + 0 * 1) * (1/60)) * (1 - 0) * (1/60))\<rparr>"
  let ?q1 = "?q\<lparr>velocityY := Fin ((0 + (980 + 0 * 1) * (1/60)) * (1 - 0)), accelerationY := Fin 0\<rparr>"
  have second: "Physics_update (Fin (1/60)) (?t1, ?q1) =
      (?t1\<lparr>pos_y := Fin ((0 + (0 + (980 + 0 * 1) * (1/60)) * (1 - 0) * (1/60)) +
                 ((0 + (980 + 0 * 1) * (1/60)) * (1 - 0) + (0 + 0 * 1) * (1/60)) * (1 - 0) * (1/60))\<rparr>,
       ?q1\<lparr>velocityY := Fin (((0 + (980 + 0 * 1) * (1/60)) * (1 - 0) + (0 + 0 * 1) * (1/60)) * (1 - 0)),
           accelerationY := Fin 0\<rparr>)"
    by (rule free_fall_step) (simp_all add: free_fall_def accelerated_def Physics_new_def Transform_new_def)
  have i1: "integrate 1 (Fin (1/60)) (Transform_new, accelerated) =
              Physics_update (Fin (1/60)) (Transform_new, accelerated)"
    by simp
  have i2: "integrate 2 (Fin (1/60)) (Transform_new, ?q) =
              Physics_update (Fin (1/60)) (Physics_update (Fin (1/60)) (Transform_new, ?q))"
    by (simp add: numeral_2_eq_2)
  show ?thesis
    by (simp only: i1 i2 one first second) simp
qed

section \<open>Gravity: the system and the entity\<close>

lemma updateEntityPhysics_dynamic:
  assumes "\<not> isKinematic (body_physics b)" "\<not> isStatic (body_physics b)" "\<not> isSleeping (body_physics b)"
  shows "PhysicsSystem_updateEntityPhysics sys dt b =
     b\<lparr>body_transform := fst (Physics_update dt (body_transform b,
            (body_physics b)\<lparr>gravityX := sys_gravityX sys, gravityY := sys_gravityY sys\<rparr>)),
       body_physics := snd (Physics_update dt (body_transform b,
            (body_physics b)\<lparr>gravityX := sys_gravityX sys, gravityY := sys_gravityY sys\<rparr>))\<rparr>"
  using assms
  by (simp add: PhysicsSystem_updateEntityPhysics_def Let_def Physics_setGravity_def case_prod_beta)

lemma foldl_apply_impulse_gravity:
  "gravityX (foldl apply_impulse p is) = gravityX p \<and> gravityY (foldl apply_impulse p is) = gravityY p"
  by (induction "is" arbitrary: p) (simp_all add: apply_impulse_def)

lemma foldl_apply_force_gravity:
  "gravityX (fst (foldl (apply_force dt) (p, act) fs)) = gravityX p \<and>
   gravityY (fst (foldl (apply_force dt) (p, act) fs)) = gravityY p"
  by (induction fs arbitrary: p act) (simp_all add: apply_force_def Let_def)

lemma stages_gravity:
  "gravityX (apply_gravity p) = gravityX p" "gravityY (apply_gravity p) = gravityY p"
  "gravityX (apply_impulses p) = gravityX p" "gravityY (apply_impulses p) = gravityY p"
  "gravityX (apply_forces dt p) = gravityX p" "gravityY (apply_forces dt p) = gravityY p"
  "gravityX (update_velocity dt p) = gravityX p" "gravityY (update_velocity dt p) = gravityY p"
  "gravityX (apply_friction p) = gravityX p" "gravityY (apply_friction p) = gravityY p"
  "gravityX (limit_speed sp p) = gravityX p" "gravityY (limit_speed sp p) = gravityY p"
  "gravityX (update_angular_velocity dt p) = gravityX p" "gravityY (update_angular_velocity dt p) = gravityY p"
  "gravityX (reset_acceleration p) = gravityX p" "gravityY (reset_acceleration p) = gravityY p"
  "gravityX (check_sleep sp p) = gravityX p" "gravityY (check_sleep sp p) = gravityY p"
  using foldl_apply_force_gravity [of dt p "[]" "forces p"]
  by (simp_all add: apply_gravity_def apply_impulses_def foldl_apply_impulse_gravity
      apply_forces_def case_prod_beta
      update_velocity_def apply_friction_def limit_speed_def update_angular_velocity_def
      reset_acceleration_def check_sleep_def Let_def)

lemma Physics_update_gravity:
  "gravityX (snd (Physics_update dt (t, p))) = gravityX p \<and>
   gravityY (snd (Physics_update dt (t, p))) = gravityY p"
  by (simp add: Physics_update_def Let_def stages_gravity)

lemma apply_gravity_system:
  "\<not> isKinematic p \<Longrightarrow>
   apply_gravity (p\<lparr>gravityX := gx, gravityY := gy\<rparr>) =
     p\<lparr>gravityX := gx, gravityY := gy,
       accelerationX := accelerationX p + gx * gravityScale p,
       accelerationY := accelerationY p + gy * gravityScale p\<rparr>"
  by (simp add: apply_gravity_def)

lemma Physics_update_system:
  assumes "\<not> isKinematic p" "\<not> isStatic p" "\<not> isSleeping p"
  shows "Physics_update dt (t, p\<lparr>gravityX := gx, gravityY := gy\<rparr>) =
     (let p0 = p\<lparr>gravityX := gx, gravityY := gy,
                 accelerationX := accelerationX p + gx * gravityScale p,
                 accelerationY := accelerationY p + gy * gravityScale p\<rparr>;
          p1 = apply_friction (update_velocity dt (apply_forces dt (apply_impulses p0)));
          speed = current_speed p1;
          p2 = update_angular_velocity dt (limit_speed speed p1)
      in (update_position dt p2 t, check_sleep speed (reset_acceleration p2)))"
  using assms by (simp add: Physics_update_def apply_gravity_system Let_def)

lemma system_damped_velocity:
  assumes "\<not> isKinematic p" "impulses p = []" "forces p = []"
  shows "velocityX (apply_friction (update_velocity dt (apply_forces dt (apply_impulses
             (p\<lparr>gravityX := gx, gravityY := gy, accelerationX := ax, accelerationY := ay\<rparr>))))) =
           (velocityX p + ax * dt) * (Fin 1 - (if isColliding p then friction p else airResistance p))"
    and "velocityY (apply_friction (update_velocity dt (apply_forces dt (apply_impulses
             (p\<lparr>gravityX := gx, gravityY := gy, accelerationX := ax, accelerationY := ay\<rparr>))))) =
           (velocityY p + ay * dt) * (Fin 1 - (if isColliding p then friction p else airResistance p))"
  using assms
  by (simp_all add: apply_impulses_def apply_forces_def update_velocity_def apply_friction_def Let_def)

text \<open>
  Claim C2, as amended. For a body that is not kinematic, static or sleeping,
  \<open>updateEntityPhysics\<close> first overwrites the body's \<open>gravityX\<close> and \<open>gravityY\<close> with
  the system's. So the step does not depend on the gravity vector the entity had set; it
  is the integration of the body whose acceleration has gained the system's gravity
  times the entity's \<open>gravityScale\<close> (without queued impulses and forces the damped velocity
  is \<open>(v + (a + g * gravityScale) * dt) * damping\<close> with the system's \<open>g\<close>); and after
  the step the body's gravity fields hold the system's values.
\<close>

theorem system_gravity_overrides_entity:
  assumes "\<not> isKinematic (body_physics b)" "\<not> isStatic (body_physics b)" "\<not> isSleeping (body_physics b)"
  shows "PhysicsSystem_updateEntityPhysics sys dt
           (b\<lparr>body_physics := (body_physics b)\<lparr>gravityX := gx, gravityY := gy\<rparr>\<rparr>) =
         PhysicsSystem_updateEntityPhysics sys dt b \<and>
         (let p = body_physics b;
              p0 = p\<lparr>gravityX := sys_gravityX sys, gravityY := sys_gravityY sys,
                     accelerationX := accelerationX p + sys_gravityX sys * gravityScale p,
                     accelerationY := accelerationY p + sys_gravityY sys * gravityScale p\<rparr>;
              p1 = apply_friction (update_velocity dt (apply_forces dt (apply_impulses p0)));
              speed = current_speed p1;
              p2 = update_angular_velocity dt (limit_speed speed p1);
              damping = Fin 1 - (if isColliding p then friction p else airResistance p)
          in PhysicsSystem_updateEntityPhysics sys dt b =
               b\<lparr>body_transform := update_position dt p2 (body_transform b),
                 body_physics := check_sleep speed (reset_acceleration p2)\<rparr> \<and>
             (impulses p = [] \<and> forces p = [] \<longrightarrow>
                velocityX p1 =
                  (velocityX p + (accelerationX p + sys_gravityX sys * gravityScale p) * dt) * damping \<and>
                velocityY p1 =
                  (velocityY p + (accelerationY p + sys_gravityY sys * gravityScale p) * dt) * damping)) \<and>
         gravityX (body_physics (PhysicsSystem_updateEntityPhysics sys dt b)) = sys_gravityX sys \<and>
         gravityY (body_physics (PhysicsSystem_updateEntityPhysics sys dt b)) = sys_gravityY sys"
proof (intro conjI)
  show "PhysicsSystem_updateEntityPhysics sys dt
           (b\<lparr>body_physics := (body_physics b)\<lparr>gravityX := gx, gravityY := gy\<rparr>\<rparr>) =
         PhysicsSystem_updateEntityPhysics sys dt b"
    using assms
    by (simp add: PhysicsSystem_updateEntityPhysics_def Let_def Physics_setGravity_def case_prod_beta)
  let ?p = "body_physics b"
  let ?q = "?p\<lparr>gravityX := sys_gravityX sys, gravityY := sys_gravityY sys,
                 accelerationX := accelerationX ?p + sys_gravityX sys * gravityScale ?p,
                 accelerationY := accelerationY ?p + sys_gravityY sys * gravityScale ?p\<rparr>"
  have step: "PhysicsSystem_updateEntityPhysics sys dt b =
      (let p1 = apply_friction (update_velocity dt (apply_forces dt (apply_impulses ?q)));
           speed = current_speed p1;
           p2 = update_angular_velocity dt (limit_speed speed p1)
       in b\<lparr>body_transform := update_position dt p2 (body_transform b),
            body_physics := check_sleep speed (reset_acceleration p2)\<rparr>)"
    unfolding updateEntityPhysics_dynamic [OF assms] Physics_update_system [OF assms] Let_def
    by simp
  have vel: "velocityX (apply_friction (update_velocity dt (apply_forces dt (apply_impulses ?q)))) =
               (velocityX ?p + (accelerationX ?p + sys_gravityX sys * gravityScale ?p) * dt) *
               (Fin 1 - (if isColliding ?p then friction ?p else airResistance ?p)) \<and>
             velocityY (apply_friction (update_velocity dt (apply_forces dt (apply_impulses ?q)))) =
               (velocityY ?p + (accelerationY ?p + sys_gravityY sys * gravityScale ?p) * dt) *
               (Fin 1 - (if isColliding ?p then friction ?p else airResistance ?p))"
    if "impulses ?p = []" "forces ?p = []"
    using system_damped_velocity [OF assms(1) that] by blast
  show "let p = body_physics b;
              p0 = p\<lparr>gravityX := sys_gravityX sys, gravityY := sys_gravityY sys,
                     accelerationX := accelerationX p + sys_gravityX sys * gravityScale p,
                     accelerationY := accelerationY p + sys_gravityY sys * gravityScale p\<rparr>;
              p1 = apply_friction (update_velocity dt (apply_forces dt (apply_impulses p0)));
              speed = current_speed p1;
              p2 = update_angular_velocity dt (limit_speed speed p1);
              damping = Fin 1 - (if isColliding p then friction p else airResistance p)
          in PhysicsSystem_updateEntityPhysics sys dt b =
               b\<lparr>body_transform := update_position dt p2 (body_transform b),
                 body_physics := check_sleep speed (reset_acceleration p2)\<rparr> \<and>
             (impulses p = [] \<and> forces p = [] \<longrightarrow>
                velocityX p1 =
                  (velocityX p + (accelerationX p + sys_gravityX sys * gravityScale p) * dt) * damping \<and>
                velocityY p1 =
                  (velocityY p + (accelerationY p + sys_gravityY sys * gravityScale p) * dt) * damping)"
    unfolding Let_def
  proof (intro conjI impI)
    show "PhysicsSystem_updateEntityPhysics sys dt b =
      b\<lparr>body_transform := update_position dt
           (update_angular_velocity dt
              (limit_speed (current_speed (apply_friction (update_velocity dt (apply_forces dt (apply_impulses ?q)))))
                 (apply_friction (update_velocity dt (apply_forces dt (apply_impulses ?q))))))
           (body_transform b),
        body_physics := check_sleep
           (current_speed (apply_friction (update_velocity dt (apply_forces dt (apply_impulses ?q)))))
           (reset_acceleration
              (update_angular_velocity dt
                 (limit_speed (current_speed (apply_friction (update_velocity dt (apply_forces dt (apply_impulses ?q)))))
                    (apply_friction (update_velocity dt (apply_forces dt (apply_impulses ?q)))))))\<rparr>"
      using step unfolding Let_def .
  qed (use vel in blast)+
  show "gravityX (body_physics (PhysicsSystem_updateEntityPhysics sys dt b)) = sys_gravityX sys"
    using assms by (simp add: updateEntityPhysics_dynamic Physics_update_gravity)
  show "gravityY (body_physics (PhysicsSystem_updateEntityPhysics sys dt b)) = sys_gravityY sys"
    using assms by (simp add: updateEntityPhysics_dynamic Physics_update_gravity)
qed

section \<open>The collision state across frames\<close>

lemma update_clears:
  assumes "sys_enabled sys" and "PhysicsSystem_update dt (sys, bs) = Returns (sys1, bs1)"
  shows "list_all (\<lambda>b. collisions (body_physics b) = [] \<and> \<not> isColliding (body_physics b)) bs1"
proof -
  let ?r = "if sys_collisionEnabled sys
            then PhysicsSystem_detectCollisions (sys, map (PhysicsSystem_updateEntityPhysics sys dt) bs)
            else Returns (sys, map (PhysicsSystem_updateEntityPhysics sys dt) bs)"
  show ?thesis
  proof (cases ?r)
    case (Throws e st2)
    then show ?thesis using assms by (simp add: PhysicsSystem_update_def Let_def)
  next
    case (Returns st2)
    obtain sys2 bs2 where st2: "st2 = (sys2, bs2)" by (cases st2)
    have "bs1 = map clear_body (case worldBounds sys2 of
                  Some wb \<Rightarrow> map (PhysicsSystem_checkWorldBounds wb) bs2 | None \<Rightarrow> bs2)"
      using assms Returns st2 by (auto simp add: PhysicsSystem_update_def Let_def)
    then show ?thesis
      by (auto simp add: list_all_iff clear_body_def Physics_clearCollisions_def)
  qed
qed

lemma update_keeps_clear:
  assumes "list_all (\<lambda>b. \<not> isColliding (body_physics b)) bs"
    and "PhysicsSystem_update dt (sys, bs) = Returns (sys1, bs1)"
  shows "list_all (\<lambda>b. \<not> isColliding (body_physics b)) bs1"
proof (cases "sys_enabled sys")
  case True
  then show ?thesis using update_clears [OF True assms(2)] by (simp add: list_all_iff)
next
  case False
  then show ?thesis using assms by (simp add: PhysicsSystem_update_def)
qed

lemma run_frames_errors_grow:
  "\<exists>more. fst (run_frames h dts (errs, st)) = errs @ more"
proof (induction dts arbitrary: errs st)
  case Nil
  then show ?case by simp
next
  case (Cons dt dts)
  show ?case
  proof (cases "PhysicsSystem_update dt st")
    case (Returns st1)
    then show ?thesis using Cons.IH [of errs st1] by simp
  next
    case (Throws e st1)
    show ?thesis
    proof (cases h)
      case GameLoop
      then show ?thesis using Throws by simp
    next
      case FrameTimer
      obtain more where "fst (run_frames h dts (errs @ [e], st1)) = (errs @ [e]) @ more"
        using Cons.IH [of "errs @ [e]" st1] by blast
      then show ?thesis using Throws FrameTimer by simp
    qed
  qed
qed

lemma run_frames_keeps_clear:
  "list_all (\<lambda>b. \<not> isColliding (body_physics b)) bs \<Longrightarrow>
   run_frames h dts ([], (sys, bs)) = ([], (sys1, bs1)) \<Longrightarrow>
   list_all (\<lambda>b. \<not> isColliding (body_physics b)) bs1"
proof (induction dts arbitrary: sys bs)
  case Nil
  then show ?case by simp
next
  case (Cons dt dts)
  show ?case
  proof (cases "PhysicsSystem_update dt (sys, bs)")
    case (Throws e st)
    show ?thesis
    proof (cases h)
      case GameLoop
      then show ?thesis using Cons.prems(2) Throws by simp
    next
      case FrameTimer
      obtain more where "fst (run_frames h dts ([e], st)) = [e] @ more"
        using run_frames_errors_grow [of h dts "[e]" st] by blast
      then show ?thesis using Cons.prems(2) Throws FrameTimer by simp
    qed
  next
    case (Returns st)
    obtain sys2 bs2 where st: "st = (sys2, bs2)" by (cases st)
    have "list_all (\<lambda>b. \<not> isColliding (body_physics b)) bs2"
      using update_keeps_clear [OF Cons.prems(1)] Returns st by simp
    moreover have "run_frames h dts ([], (sys2, bs2)) = ([], (sys1, bs1))"
      using Cons.prems(2) Returns st by simp
    ultimately show ?thesis by (rule Cons.IH)
  qed
qed

lemma apply_impulse_friction:
  "apply_impulse (p\<lparr>friction := f\<rparr>) i = (apply_impulse p i)\<lparr>friction := f\<rparr>"
  by (simp add: apply_impulse_def)

lemma foldl_apply_impulse_friction:
  "foldl apply_impulse (p\<lparr>friction := f\<rparr>) is = (foldl apply_impulse p is)\<lparr>friction := f\<rparr>"
  by (induction "is" arbitrary: p) (simp_all add: apply_impulse_friction)

lemma apply_force_friction:
  "apply_force dt (p\<lparr>friction := f\<rparr>, act) fo =
     ((fst (apply_force dt (p, act) fo))\<lparr>friction := f\<rparr>, snd (apply_force dt (p, act) fo))"
  by (simp add: apply_force_def Let_def)

lemma foldl_apply_force_friction:
  "foldl (apply_force dt) (p\<lparr>friction := f\<rparr>, act) fs =
     ((fst (foldl (apply_force dt) (p, act) fs))\<lparr>friction := f\<rparr>, snd (foldl (apply_force dt) (p, act) fs))"
  by (induction fs arbitrary: p act) (simp_all add: apply_force_friction)

lemma foldl_apply_impulse_isColliding:
  "isColliding (foldl apply_impulse p is) = isColliding p"
  by (induction "is" arbitrary: p) (simp_all add: apply_impulse_def)

lemma foldl_apply_force_isColliding:
  "isColliding (fst (foldl (apply_force dt) (p, act) fs)) = isColliding p"
  by (induction fs arbitrary: p act) (simp_all add: apply_force_def Let_def)

lemma stages_friction:
  "apply_gravity (p\<lparr>friction := f\<rparr>) = (apply_gravity p)\<lparr>friction := f\<rparr>"
  "apply_impulses (p\<lparr>friction := f\<rparr>) = (apply_impulses p)\<lparr>friction := f\<rparr>"
  "apply_forces dt (p\<lparr>friction := f\<rparr>) = (apply_forces dt p)\<lparr>friction := f\<rparr>"
  "update_velocity dt (p\<lparr>friction := f\<rparr>) = (update_velocity dt p)\<lparr>friction := f\<rparr>"
  "limit_speed sp (p\<lparr>friction := f\<rparr>) = (limit_speed sp p)\<lparr>friction := f\<rparr>"
  "update_angular_velocity dt (p\<lparr>friction := f\<rparr>) = (update_angular_velocity dt p)\<lparr>friction := f\<rparr>"
  "reset_acceleration (p\<lparr>friction := f\<rparr>) = (reset_acceleration p)\<lparr>friction := f\<rparr>"
  "check_sleep sp (p\<lparr>friction := f\<rparr>) = (check_sleep sp p)\<lparr>friction := f\<rparr>"
  "current_speed (p\<lparr>friction := f\<rparr>) = current_speed p"
  "update_position dt (p\<lparr>friction := f\<rparr>) t = update_position dt p t"
  by (simp_all add: apply_gravity_def apply_impulses_def foldl_apply_impulse_friction
      apply_forces_def foldl_apply_force_friction
      update_velocity_def limit_speed_def update_angular_velocity_def
      reset_acceleration_def check_sleep_def current_speed_def update_position_def Let_def case_prod_beta)

lemma stages_isColliding:
  "isColliding (apply_gravity p) = isColliding p"
  "isColliding (apply_impulses p) = isColliding p"
  "isColliding (apply_forces dt p) = isColliding p"
  "isColliding (update_velocity dt p) = isColliding p"
  using foldl_apply_force_isColliding [of dt p "[]" "forces p"]
  by (simp_all add: apply_gravity_def apply_impulses_def foldl_apply_impulse_isColliding
      apply_forces_def update_velocity_def case_prod_beta)

lemma apply_friction_not_colliding:
  "\<not> isColliding p \<Longrightarrow>
   apply_friction p =
     (if \<not> isKinematic p
      then p\<lparr>velocityX := velocityX p * (Fin 1 - airResistance p),
             velocityY := velocityY p * (Fin 1 - airResistance p)\<rparr>
      else p)"
  by (simp add: apply_friction_def Let_def)

lemma apply_friction_friction:
  "\<not> isColliding p \<Longrightarrow> apply_friction (p\<lparr>friction := f\<rparr>) = (apply_friction p)\<lparr>friction := f\<rparr>"
  by (simp add: apply_friction_def Let_def)

lemma Physics_update_friction:
  assumes "\<not> isColliding p"
  shows "Physics_update dt (t, p\<lparr>friction := f\<rparr>) =
           (fst (Physics_update dt (t, p)), (snd (Physics_update dt (t, p)))\<lparr>friction := f\<rparr>)"
proof -
  have nc: "\<not> isColliding (update_velocity dt (apply_forces dt (apply_impulses (apply_gravity p))))"
    using assms by (simp add: stages_isColliding)
  show ?thesis
    by (simp add: Physics_update_def Let_def stages_friction apply_friction_friction [OF nc])
qed

lemma updateEntityPhysics_friction:
  assumes "\<not> isColliding (body_physics b)"
  shows "PhysicsSystem_updateEntityPhysics sys dt (b\<lparr>body_physics := (body_physics b)\<lparr>friction := f\<rparr>\<rparr>) =
           (PhysicsSystem_updateEntityPhysics sys dt b)
             \<lparr>body_physics := (body_physics (PhysicsSystem_updateEntityPhysics sys dt b))\<lparr>friction := f\<rparr>\<rparr>"
proof -
  have a: "\<not> isColliding (Physics_setGravity gx gy (body_physics b))" for gx gy
    using assms by (simp add: Physics_setGravity_def)
  have b: "Physics_setGravity gx gy (p\<lparr>friction := f\<rparr>) = (Physics_setGravity gx gy p)\<lparr>friction := f\<rparr>" for gx gy p
    by (simp add: Physics_setGravity_def)
  show ?thesis
    using assms
    by (simp add: PhysicsSystem_updateEntityPhysics_def Let_def case_prod_beta b
        Physics_update_friction [OF a] Physics_update_friction [OF assms])
qed

section \<open>The example scenes, evaluated\<close>

lemma sqrt_400: "sqrt 400 = 20"
  by (rule real_sqrt_unique) simp_all

lemma kinematic_integrate:
  "PhysicsSystem_updateEntityPhysics PhysicsSystem_new frame_time kinematicA = asleep kinematicA"
  "PhysicsSystem_updateEntityPhysics PhysicsSystem_new frame_time kinematicB = asleep kinematicB"
  by (simp_all add: PhysicsSystem_updateEntityPhysics_def Physics_update_def Let_def
      apply_gravity_def apply_impulses_def apply_forces_def update_velocity_def apply_friction_def
      current_speed_def limit_speed_def update_angular_velocity_def update_position_def
      reset_acceleration_def check_sleep_def scene_defs asleep_def)

lemma kinematic_checkCollision:
  "Physics_checkCollision (body_physics (asleep kinematicA)) (body_physics (asleep kinematicB))
     (body_transform (asleep kinematicA)) (body_transform (asleep kinematicB))
   = Some contact"
  by (simp add: Physics_checkCollision_def Physics_performShapeCollision_def Physics_getBounds_def
      Transform_getWorldPosition_def scene_defs asleep_def minus_jsnum_def sqrt_400 Let_def contact_def)

lemma kinematic_detect:
  "PhysicsSystem_detectCollisions (PhysicsSystem_new, [asleep kinematicA, asleep kinematicB]) =
     Returns (PhysicsSystem_new\<lparr>collisionPairs :=
                 [contact_pair]\<rparr>,
              [struck ''b'' 1 (asleep kinematicA), struck ''a'' (- 1) (asleep kinematicB)])"
proof -
  have k: "isKinematic (body_physics (asleep kinematicA))" "isKinematic (body_physics (asleep kinematicB))"
    by (simp_all add: scene_defs asleep_def)
  have en: "collisionEnabled (body_physics (asleep kinematicA))" "collisionEnabled (body_physics (asleep kinematicB))"
    by (simp_all add: scene_defs asleep_def)
  have ids: "body_id (asleep kinematicA) = ''a''" "body_id (asleep kinematicB) = ''b''"
    "collisions (body_physics (asleep kinematicA)) = []" "collisions (body_physics (asleep kinematicB)) = []"
    by (simp_all add: scene_defs asleep_def)
  have pairs: "index_pairs (Suc (Suc 0)) = [(0, Suc 0)]"
    by (simp add: index_pairs_def upt_rec)
  have new: "collisionPairs PhysicsSystem_new = []" by (simp add: PhysicsSystem_new_def)
  show ?thesis
    by (simp add: PhysicsSystem_detectCollisions_def pairs PhysicsSystem_checkCollision_def Let_def
        en kinematic_checkCollision handleCollision_static k ids struck_def new contact_def contact_pair_def)
qed

lemma kinematic_update:
  "PhysicsSystem_update frame_time (PhysicsSystem_new, [kinematicA, kinematicB]) =
     Returns (PhysicsSystem_new\<lparr>collisionPairs :=
                 [contact_pair]\<rparr>,
              [asleep kinematicA, asleep kinematicB])"
proof -
  have sys: "sys_enabled PhysicsSystem_new" "sys_collisionEnabled PhysicsSystem_new"
    "worldBounds PhysicsSystem_new = None"
    by (simp_all add: PhysicsSystem_new_def)
  have clr: "clear_body (struck ''b'' 1 (asleep kinematicA)) = asleep kinematicA"
    "clear_body (struck ''a'' (- 1) (asleep kinematicB)) = asleep kinematicB"
    by (simp_all add: clear_body_def Physics_clearCollisions_def struck_def asleep_def scene_defs)
  show ?thesis
    by (simp add: PhysicsSystem_update_def Let_def sys kinematic_integrate kinematic_detect clr)
qed

lemma dynamic_checkCollision:
  "Physics_checkCollision (body_physics ballA) (body_physics ballB) (body_transform ballA) (body_transform ballB)
   = Some contact"
  by (simp add: Physics_checkCollision_def Physics_performShapeCollision_def Physics_getBounds_def
      Transform_getWorldPosition_def scene_defs minus_jsnum_def sqrt_400 Let_def contact_def)

text \<open>
  Claim C1. The claim holds for static and kinematic bodies, but not for the others: in
  the example scene \<open>handleCollision\<close> on the moving circle flags it, appends the record
  and then throws a ReferenceError, because \<open>Physics.js\<close> never imports \<open>Transform\<close>.
  The body keeps its position (0, 0) and its velocity (100, 0), where the claim moves it
  to (2.5, 0) with velocity (-50, 0); the second body is not handled at all, and no pair
  is recorded.
\<close>

theorem collision_response_throws:
  "PhysicsSystem_checkCollision 0 1 (PhysicsSystem_new, [ballA, ballB]) =
     Throws (ReferenceError ''Transform'') (PhysicsSystem_new, [struck ''b'' 1 ballA, ballB]) \<and>
   body_transform (struck ''b'' 1 ballA) = body_transform ballA \<and>
   velocityX (body_physics (struck ''b'' 1 ballA)) = Fin 100 \<and>
   velocityY (body_physics (struck ''b'' 1 ballA)) = Fin 0"
proof -
  have dyn: "\<not> isStatic (body_physics ballA)" "\<not> isKinematic (body_physics ballA)"
    by (simp_all add: scene_defs)
  have en: "collisionEnabled (body_physics ballA)" "collisionEnabled (body_physics ballB)"
    by (simp_all add: scene_defs)
  have c0: "collisions (body_physics ballA) = []" "body_id ballB = ''b''"
    by (simp_all add: scene_defs)
  have "PhysicsSystem_checkCollision 0 1 (PhysicsSystem_new, [ballA, ballB]) =
     Throws (ReferenceError ''Transform'') (PhysicsSystem_new, [struck ''b'' 1 ballA, ballB])"
    by (simp add: PhysicsSystem_checkCollision_def Let_def en dynamic_checkCollision
        handleCollision_dynamic [OF dyn] c0 struck_def contact_def)
  then show ?thesis
    by (simp add: struck_def scene_defs)
qed

text \<open>
  Claim C6. The claim holds wherever the two centres differ. Where they coincide the
  distance is 0, the collision is still reported (0 is less than the radius sum), and
  both components of the normal are \<open>0 / 0 = NaN\<close>, not a unit vector: the division by the
  distance has no guard.
\<close>

theorem coincident_centres_normal:
  "Physics_performShapeCollision
      (body_physics (circle_body ''a'' 0 0 10)) (body_physics (circle_body ''b'' 0 0 15))
      (body_transform (circle_body ''a'' 0 0 10)) (body_transform (circle_body ''b'' 0 0 15)) =
     Some \<lparr>normalX = NaN, normalY = NaN, depth = Fin 25, point = Some \<lparr>pt_x = NaN, pt_y = NaN\<rparr>\<rparr>"
  by (simp add: Physics_performShapeCollision_def Transform_getWorldPosition_def scene_defs
      minus_jsnum_def Let_def)

text \<open>
  Claim C4, as amended. The records appended during a \<open>PhysicsSystem.update\<close> are cleared
  by that same call, in its last loop: when the update of an enabled system returns,
  every body's collision list is empty and its \<open>isColliding\<close> flag is false.
\<close>

theorem collision_records_cleared_before_return:
  assumes "sys_enabled sys" and "PhysicsSystem_update dt (sys, bs) = Returns (sys1, bs1)"
  shows "list_all (\<lambda>b. collisions (body_physics b) = [] \<and> \<not> isColliding (body_physics b)) bs1"
  using assms by (rule update_clears)

theorem collision_records_cleared_before_return_witness:
  "sys_enabled PhysicsSystem_new \<and>
   PhysicsSystem_update frame_time (PhysicsSystem_new, [kinematicA, kinematicB]) =
     Returns (PhysicsSystem_new\<lparr>collisionPairs := [contact_pair]\<rparr>, [asleep kinematicA, asleep kinematicB]) \<and>
   list_all (\<lambda>b. collisions (body_physics b) = [] \<and> \<not> isColliding (body_physics b))
     [asleep kinematicA, asleep kinematicB]"
proof -
  have en: "sys_enabled PhysicsSystem_new" by (simp add: PhysicsSystem_new_def)
  show ?thesis
    using en kinematic_update collision_records_cleared_before_return [OF en kinematic_update]
    by simp
qed

text \<open>
  Claim C4 as stated fails. In the scene of two overlapping kinematic circles the
  detection pass of the update appends one record to each body, and the update returns
  with both lists empty (the pair itself stays in the system's \<open>collisionPairs\<close>).
\<close>

theorem records_gone_after_update_counterexample:
  "PhysicsSystem_detectCollisions
      (PhysicsSystem_new, map (PhysicsSystem_updateEntityPhysics PhysicsSystem_new frame_time)
                            [kinematicA, kinematicB]) =
     Returns (PhysicsSystem_new\<lparr>collisionPairs := [contact_pair]\<rparr>,
              [struck ''b'' 1 (asleep kinematicA), struck ''a'' (- 1) (asleep kinematicB)]) \<and>
   length (collisions (body_physics (struck ''b'' 1 (asleep kinematicA)))) = 1 \<and>
   PhysicsSystem_update frame_time (PhysicsSystem_new, [kinematicA, kinematicB]) =
     Returns (PhysicsSystem_new\<lparr>collisionPairs := [contact_pair]\<rparr>,
              [asleep kinematicA, asleep kinematicB]) \<and>
   collisions (body_physics (asleep kinematicA)) = [] \<and>
   collisions (body_physics (asleep kinematicB)) = []"
  by (simp add: kinematic_integrate kinematic_detect kinematic_update)
     (simp add: struck_def asleep_def scene_defs)

lemma falling_integrate:
  "PhysicsSystem_updateEntityPhysics PhysicsSystem_new frame_time ballB = fallen"
proof -
  let ?p = "(body_physics ballB)\<lparr>gravityX := Fin 0, gravityY := Fin 980\<rparr>"
  have ff: "free_fall ?p" by (simp add: free_fall_def scene_defs)
  have step: "Physics_update (Fin (1/60)) (body_transform ballB, ?p) =
      ((body_transform ballB)\<lparr>pos_y := Fin (0 + (0 + (0 + 980 * 1) * (1/60)) * (1 - 1/100) * (1/60))\<rparr>,
       ?p\<lparr>velocityY := Fin ((0 + (0 + 980 * 1) * (1/60)) * (1 - 1/100)), accelerationY := Fin 0\<rparr>)"
    by (rule free_fall_step [OF ff]) (simp_all add: scene_defs)
  have dyn: "\<not> isKinematic (body_physics ballB)" "\<not> isStatic (body_physics ballB)"
    "\<not> isSleeping (body_physics ballB)"
    by (simp_all add: scene_defs)
  have g: "sys_gravityX PhysicsSystem_new = Fin 0" "sys_gravityY PhysicsSystem_new = Fin 980"
    by (simp_all add: PhysicsSystem_new_def)
  show ?thesis
    unfolding updateEntityPhysics_dynamic [OF dyn] g frame_time_def step
    by (simp add: fallen_def scene_defs)
qed

lemma falling_update:
  "PhysicsSystem_update frame_time (PhysicsSystem_new, [ballB]) = Returns (PhysicsSystem_new, [fallen])"
proof -
  have sys: "sys_enabled PhysicsSystem_new" "sys_collisionEnabled PhysicsSystem_new"
    "worldBounds PhysicsSystem_new = None" "PhysicsSystem_new\<lparr>collisionPairs := []\<rparr> = PhysicsSystem_new"
    by (simp_all add: PhysicsSystem_new_def)
  have pairs: "index_pairs (Suc 0) = []" by (simp add: index_pairs_def)
  have clr: "clear_body fallen = fallen"
    by (simp add: clear_body_def Physics_clearCollisions_def fallen_def scene_defs)
  show ?thesis
    by (simp add: PhysicsSystem_update_def Let_def sys falling_integrate
        PhysicsSystem_detectCollisions_def pairs clr)
qed

section \<open>The damping branch across frames\<close>

text \<open>
  Frames that return. Start from bodies that are not flagged as colliding (as the
  constructor leaves them) and run any number of frames none of which throws. Then every
  body enters the next frame's integration with \<open>isColliding = false\<close>, its step does not
  depend on \<open>friction\<close>, and the damping block multiplies the velocity by
  \<open>1 - airResistance\<close>.
\<close>

lemma returning_frames_air_resistance:
  assumes "list_all (\<lambda>b. \<not> isColliding (body_physics b)) bs"
    and "run_frames h dts ([], (sys, bs)) = ([], (sys1, bs1))"
    and "b \<in> set bs1"
  shows "\<not> isColliding (body_physics b) \<and>
         (\<forall>f. PhysicsSystem_updateEntityPhysics sys1 dt (b\<lparr>body_physics := (body_physics b)\<lparr>friction := f\<rparr>\<rparr>) =
                (PhysicsSystem_updateEntityPhysics sys1 dt b)
                  \<lparr>body_physics := (body_physics (PhysicsSystem_updateEntityPhysics sys1 dt b))\<lparr>friction := f\<rparr>\<rparr>) \<and>
         (let q = update_velocity dt (apply_forces dt (apply_impulses (apply_gravity
                    (Physics_setGravity (sys_gravityX sys1) (sys_gravityY sys1) (body_physics b)))))
          in apply_friction q =
               (if \<not> isKinematic q
                then q\<lparr>velocityX := velocityX q * (Fin 1 - airResistance q),
                       velocityY := velocityY q * (Fin 1 - airResistance q)\<rparr>
                else q))"
proof -
  have nc: "\<not> isColliding (body_physics b)"
    using run_frames_keeps_clear [OF assms(1,2)] assms(3) by (simp add: list_all_iff)
  have "\<not> isColliding (update_velocity dt (apply_forces dt (apply_impulses (apply_gravity
           (Physics_setGravity (sys_gravityX sys1) (sys_gravityY sys1) (body_physics b))))))"
    using nc by (simp add: stages_isColliding Physics_setGravity_def)
  then show ?thesis
    using nc by (simp add: updateEntityPhysics_friction apply_friction_not_colliding Let_def)
qed

lemma sqrt_awake: "1/100 \<le> (s::real) \<Longrightarrow> \<not> sqrt s < 1/10"
proof -
  assume s: "1/100 \<le> s"
  have "sqrt (1/100) = 1/10" by (rule real_sqrt_unique) (simp_all add: power2_eq_square)
  moreover have "sqrt (1/100) \<le> sqrt s" using s by simp
  ultimately show ?thesis by linarith
qed

lemma planar_step:
  assumes dyn: "\<not> isSleeping p" "\<not> isStatic p" "\<not> isKinematic p"
    and idle: "impulses p = []" "forces p = []"
    and lim: "maxSpeed p = PInf" "minSpeed p = Fin 0"
    and spin: "angularVelocity p = Fin 0" "angularAcceleration p = Fin 0"
    and vx: "velocityX p = Fin vx" and vy: "velocityY p = Fin vy"
    and ax: "accelerationX p = Fin ax" and ay: "accelerationY p = Fin ay"
    and gx: "gravityX p = Fin gx" and gy: "gravityY p = Fin gy" and s: "gravityScale p = Fin s"
    and r: "(if isColliding p then friction p else airResistance p) = Fin r"
    and x: "pos_x t = Fin x0" and y: "pos_y t = Fin y0" and rot: "rotation t = Fin r0"
    and awake: "1/100 \<le> ((vx + (ax + gx * s) * h) * (1 - r)) * ((vx + (ax + gx * s) * h) * (1 - r)) +
                         ((vy + (ay + gy * s) * h) * (1 - r)) * ((vy + (ay + gy * s) * h) * (1 - r))"
  shows "Physics_update (Fin h) (t, p) =
           (t\<lparr>pos_x := Fin (x0 + (vx + (ax + gx * s) * h) * (1 - r) * h),
              pos_y := Fin (y0 + (vy + (ay + gy * s) * h) * (1 - r) * h)\<rparr>,
            p\<lparr>velocityX := Fin ((vx + (ax + gx * s) * h) * (1 - r)),
              velocityY := Fin ((vy + (ay + gy * s) * h) * (1 - r)),
              accelerationX := Fin 0, accelerationY := Fin 0\<rparr>)"
proof -
  let ?vx1 = "(vx + (ax + gx * s) * h) * (1 - r)"
  let ?vy1 = "(vy + (ay + gy * s) * h) * (1 - r)"
  let ?sp = "Fin (sqrt (?vx1 * ?vx1 + ?vy1 * ?vy1))"
  let ?a = "apply_friction (update_velocity (Fin h) (apply_forces (Fin h) (apply_impulses (apply_gravity p))))"
  have nonneg: "\<not> ?vx1 * ?vx1 + ?vy1 * ?vy1 < 0"
    by (simp add: not_less)
  have a: "?a = p\<lparr>velocityX := Fin ?vx1, velocityY := Fin ?vy1,
                    accelerationX := Fin (ax + gx * s), accelerationY := Fin (ay + gy * s)\<rparr>"
  proof (cases "isColliding p")
    case True
    then show ?thesis using dyn idle vx vy ax ay gx gy s r
      by (simp add: apply_gravity_def apply_impulses_def apply_forces_def
          update_velocity_def apply_friction_def minus_jsnum_def)
  next
    case False
    then show ?thesis using dyn idle vx vy ax ay gx gy s r
      by (simp add: apply_gravity_def apply_impulses_def apply_forces_def
          update_velocity_def apply_friction_def minus_jsnum_def)
  qed
  have sp: "current_speed ?a = ?sp"
    unfolding a using nonneg by (simp add: current_speed_def)
  have b: "update_angular_velocity (Fin h) (limit_speed ?sp ?a) = ?a"
    unfolding a using lim spin nonneg
    by (simp add: limit_speed_def update_angular_velocity_def Let_def)
  have t1: "update_position (Fin h) ?a t =
              t\<lparr>pos_x := Fin (x0 + ?vx1 * h), pos_y := Fin (y0 + ?vy1 * h)\<rparr>"
    unfolding a using dyn spin x y rot
    by (simp add: update_position_def)
  have c: "check_sleep ?sp (reset_acceleration ?a) =
              p\<lparr>velocityX := Fin ?vx1, velocityY := Fin ?vy1,
                accelerationX := Fin 0, accelerationY := Fin 0\<rparr>"
    unfolding a using idle spin sqrt_awake [OF awake]
    by (simp add: check_sleep_def reset_acceleration_def)
  show ?thesis
    using dyn by (simp add: Physics_update_def Let_def sp b t1 c)
qed


lemma moving_integrate:
  "PhysicsSystem_updateEntityPhysics PhysicsSystem_new frame_time ballA = movedA"
proof -
  let ?q = "(body_physics ballA)\<lparr>gravityX := Fin 0, gravityY := Fin 980\<rparr>"
  have step: "Physics_update (Fin (1/60)) (body_transform ballA, ?q) =
      ((body_transform ballA)
         \<lparr>pos_x := Fin (0 + (100 + (0 + 0 * 1) * (1/60)) * (1 - 1/100) * (1/60)),
          pos_y := Fin (0 + (0 + (0 + 980 * 1) * (1/60)) * (1 - 1/100) * (1/60))\<rparr>,
       ?q\<lparr>velocityX := Fin ((100 + (0 + 0 * 1) * (1/60)) * (1 - 1/100)),
           velocityY := Fin ((0 + (0 + 980 * 1) * (1/60)) * (1 - 1/100)),
           accelerationX := Fin 0, accelerationY := Fin 0\<rparr>)"
    by (rule planar_step) (simp_all add: scene_defs)
  have dyn: "\<not> isKinematic (body_physics ballA)" "\<not> isStatic (body_physics ballA)"
    "\<not> isSleeping (body_physics ballA)"
    by (simp_all add: scene_defs)
  have g: "sys_gravityX PhysicsSystem_new = Fin 0" "sys_gravityY PhysicsSystem_new = Fin 980"
    by (simp_all add: PhysicsSystem_new_def)
  show ?thesis
    unfolding updateEntityPhysics_dynamic [OF dyn] g frame_time_def step
    by (simp add: movedA_def scene_defs)
qed

lemma flagged_integrate:
  "velocityX (body_physics (PhysicsSystem_updateEntityPhysics PhysicsSystem_new frame_time flaggedA)) =
     Fin (891/10)"
proof -
  let ?q = "(body_physics flaggedA)\<lparr>gravityX := Fin 0, gravityY := Fin 980\<rparr>"
  have step: "Physics_update (Fin (1/60)) (body_transform flaggedA, ?q) =
      ((body_transform flaggedA)
         \<lparr>pos_x := Fin (33/20 + (99 + (0 + 0 * 1) * (1/60)) * (1 - 1/10) * (1/60)),
          pos_y := Fin (1617/6000 + (1617/100 + (0 + 980 * 1) * (1/60)) * (1 - 1/10) * (1/60))\<rparr>,
       ?q\<lparr>velocityX := Fin ((99 + (0 + 0 * 1) * (1/60)) * (1 - 1/10)),
           velocityY := Fin ((1617/100 + (0 + 980 * 1) * (1/60)) * (1 - 1/10)),
           accelerationX := Fin 0, accelerationY := Fin 0\<rparr>)"
    by (rule planar_step) (simp_all add: flaggedA_def movedA_def scene_defs)
  have dyn: "\<not> isKinematic (body_physics flaggedA)" "\<not> isStatic (body_physics flaggedA)"
    "\<not> isSleeping (body_physics flaggedA)"
    by (simp_all add: flaggedA_def movedA_def scene_defs)
  have g: "sys_gravityX PhysicsSystem_new = Fin 0" "sys_gravityY PhysicsSystem_new = Fin 980"
    by (simp_all add: PhysicsSystem_new_def)
  show ?thesis
    unfolding updateEntityPhysics_dynamic [OF dyn] g frame_time_def step
    by simp
qed

lemma sqrt_contact: "sqrt (134689/400) = 367/20"
  by (rule real_sqrt_unique) (simp_all add: power2_eq_square)

lemma moved_checkCollision:
  "Physics_checkCollision (body_physics movedA) (body_physics fallen)
     (body_transform movedA) (body_transform fallen) =
   Some \<lparr>normalX = Fin 1, normalY = Fin 0, depth = Fin (133/20),
         point = Some \<lparr>pt_x = Fin (233/20), pt_y = Fin (1617/6000)\<rparr>\<rparr>"
  by (simp add: Physics_checkCollision_def Physics_performShapeCollision_def Physics_getBounds_def
      Transform_getWorldPosition_def movedA_def fallen_def scene_defs minus_jsnum_def sqrt_contact Let_def)

lemma first_frame_throws:
  "PhysicsSystem_update frame_time (PhysicsSystem_new, [ballA, ballB]) =
     Throws (ReferenceError ''Transform'') (PhysicsSystem_new, [flaggedA, fallen])"
proof -
  have sys: "sys_enabled PhysicsSystem_new" "sys_collisionEnabled PhysicsSystem_new"
    "PhysicsSystem_new\<lparr>collisionPairs := []\<rparr> = PhysicsSystem_new"
    by (simp_all add: PhysicsSystem_new_def)
  have pairs: "index_pairs (Suc (Suc 0)) = [(0, Suc 0)]"
    by (simp add: index_pairs_def upt_rec)
  have dyn: "\<not> isStatic (body_physics movedA)" "\<not> isKinematic (body_physics movedA)"
    by (simp_all add: movedA_def scene_defs)
  have en: "collisionEnabled (body_physics movedA)" "collisionEnabled (body_physics fallen)"
    by (simp_all add: movedA_def fallen_def scene_defs)
  have c0: "collisions (body_physics movedA) = []" "body_id fallen = ''b''"
    by (simp_all add: movedA_def fallen_def scene_defs)
  have hit: "PhysicsSystem_checkCollision 0 (Suc 0) (PhysicsSystem_new, [movedA, fallen]) =
     Throws (ReferenceError ''Transform'') (PhysicsSystem_new, [flaggedA, fallen])"
    by (simp add: PhysicsSystem_checkCollision_def Let_def en moved_checkCollision
        handleCollision_dynamic [OF dyn] c0 flaggedA_def)
  show ?thesis
    by (simp add: PhysicsSystem_update_def Let_def sys moving_integrate falling_integrate
        PhysicsSystem_detectCollisions_def pairs hit)
qed


lemma handleCollision_velocity:
  "velocityX (body_physics (state_of (Physics_handleCollision c oid b))) = velocityX (body_physics b)"
  by (simp add: Physics_handleCollision_def Let_def resolves_def Physics_module_bindings_def
      split: option.splits)

lemma checkCollision_pair:
  "\<exists>sys1 a1 b1. state_of (PhysicsSystem_checkCollision 0 (Suc 0) (sys, [a, b])) = (sys1, [a1, b1]) \<and>
     worldBounds sys1 = worldBounds sys \<and>
     velocityX (body_physics a1) = velocityX (body_physics a)"
proof (cases "collisionEnabled (body_physics a) \<and> collisionEnabled (body_physics b)")
  case False
  then show ?thesis by (auto simp add: PhysicsSystem_checkCollision_def Let_def)
next
  case en: True
  show ?thesis
  proof (cases "Physics_checkCollision (body_physics a) (body_physics b) (body_transform a) (body_transform b)")
    case None
    then show ?thesis using en by (simp add: PhysicsSystem_checkCollision_def Let_def)
  next
    case (Some c)
    show ?thesis
    proof (cases "Physics_handleCollision (Some c) (body_id b) a")
      case (Throws e a1)
      have "velocityX (body_physics a1) = velocityX (body_physics a)"
        using handleCollision_velocity [of "Some c" "body_id b" a] Throws by simp
      then show ?thesis using en Some Throws
        by (simp add: PhysicsSystem_checkCollision_def Let_def)
    next
      case (Returns a1)
      have v: "velocityX (body_physics a1) = velocityX (body_physics a)"
        using handleCollision_velocity [of "Some c" "body_id b" a] Returns by simp
      show ?thesis
      proof (cases "Physics_handleCollision
                      (Some \<lparr>normalX = - normalX c, normalY = - normalY c, depth = depth c, point = None\<rparr>)
                      (body_id a1) b")
        case T: (Throws e b1)
        then show ?thesis using en Some Returns v
          by (simp add: PhysicsSystem_checkCollision_def Let_def)
      next
        case R: (Returns b1)
        then show ?thesis using en Some Returns v
          by (simp add: PhysicsSystem_checkCollision_def Let_def)
      qed
    qed
  qed
qed

lemma pair_frame_velocity:
  assumes "sys_enabled sys" and "worldBounds sys = None"
  shows "velocityX (body_physics (hd (snd (state_of (PhysicsSystem_update dt (sys, [a, b])))))) =
         velocityX (body_physics (PhysicsSystem_updateEntityPhysics sys dt a))"
proof (cases "sys_collisionEnabled sys")
  case False
  then show ?thesis using assms
    by (simp add: PhysicsSystem_update_def Let_def clear_body_def Physics_clearCollisions_def)
next
  case True
  let ?a = "PhysicsSystem_updateEntityPhysics sys dt a"
  let ?b = "PhysicsSystem_updateEntityPhysics sys dt b"
  have pairs: "index_pairs (Suc (Suc 0)) = [(0, Suc 0)]"
    by (simp add: index_pairs_def upt_rec)
  obtain sys1 a1 b1 where
    st: "state_of (PhysicsSystem_checkCollision 0 (Suc 0) (sys\<lparr>collisionPairs := []\<rparr>, [?a, ?b])) =
           (sys1, [a1, b1])"
    and wb: "worldBounds sys1 = worldBounds (sys\<lparr>collisionPairs := []\<rparr>)"
    and v: "velocityX (body_physics a1) = velocityX (body_physics ?a)"
    using checkCollision_pair [of "sys\<lparr>collisionPairs := []\<rparr>" ?a ?b] by blast
  show ?thesis
  proof (cases "PhysicsSystem_checkCollision 0 (Suc 0) (sys\<lparr>collisionPairs := []\<rparr>, [?a, ?b])")
    case (Throws e st1)
    then show ?thesis using assms True st v
      by (simp add: PhysicsSystem_update_def Let_def PhysicsSystem_detectCollisions_def pairs)
  next
    case (Returns st1)
    then show ?thesis using assms True st v wb
      by (simp add: PhysicsSystem_update_def Let_def PhysicsSystem_detectCollisions_def pairs
          clear_body_def Physics_clearCollisions_def)
  qed
qed

lemma second_frame_state:
  "snd (run_frames FrameTimer [frame_time, frame_time] ([], (PhysicsSystem_new, [ballA, ballB]))) =
     state_of (PhysicsSystem_update frame_time (PhysicsSystem_new, [flaggedA, fallen]))"
  by (cases "PhysicsSystem_update frame_time (PhysicsSystem_new, [flaggedA, fallen])")
     (simp_all add: first_frame_throws)

text \<open>
  Claim C10. The claim rests on every \<open>PhysicsSystem.update\<close> clearing the flags before it
  returns. An update in which a body that is neither static nor kinematic collides does
  not return: \<open>handleCollision\<close> flags the body and then throws (the missing import of
  claim C1), so the clearing loop at the end of the update is skipped. In the example
  scene the first frame leaves the moving circle flagged, with velocity (99, 16.17).
  \<open>gameLoop\<close> stops there. Under \<open>Timer.tick\<close> or \<open>FrameTimer.loop\<close> the next frame
  integrates the flagged body, and its horizontal velocity becomes
  \<open>99 * (1 - friction) = 89.1\<close>, not \<open>99 * (1 - airResistance) = 98.01\<close>: the friction
  branch of the damping step is reached.
\<close>

theorem friction_branch_reached_after_throw:
  "run_frames FrameTimer [frame_time] ([], (PhysicsSystem_new, [ballA, ballB])) =
     ([ReferenceError ''Transform''], (PhysicsSystem_new, [flaggedA, fallen])) \<and>
   run_frames GameLoop [frame_time, frame_time] ([], (PhysicsSystem_new, [ballA, ballB])) =
     ([ReferenceError ''Transform''], (PhysicsSystem_new, [flaggedA, fallen])) \<and>
   isColliding (body_physics flaggedA) \<and>
   velocityX (body_physics flaggedA) = Fin 99 \<and>
   friction (body_physics flaggedA) = Fin (1/10) \<and>
   airResistance (body_physics flaggedA) = Fin (1/100) \<and>
   snd (run_frames FrameTimer [frame_time, frame_time] ([], (PhysicsSystem_new, [ballA, ballB]))) =
     state_of (PhysicsSystem_update frame_time (PhysicsSystem_new, [flaggedA, fallen])) \<and>
   velocityX (body_physics (hd (snd (snd (run_frames FrameTimer [frame_time, frame_time]
       ([], (PhysicsSystem_new, [ballA, ballB]))))))) = Fin (891/10) \<and>
   Fin (891/10) = velocityX (body_physics flaggedA) * (Fin 1 - friction (body_physics flaggedA)) \<and>
   Fin (891/10) \<noteq> velocityX (body_physics flaggedA) * (Fin 1 - airResistance (body_physics flaggedA))"
proof -
  have one: "run_frames FrameTimer [frame_time] ([], (PhysicsSystem_new, [ballA, ballB])) =
     ([ReferenceError ''Transform''], (PhysicsSystem_new, [flaggedA, fallen]))"
    by (simp add: first_frame_throws)
  have stop: "run_frames GameLoop [frame_time, frame_time] ([], (PhysicsSystem_new, [ballA, ballB])) =
     ([ReferenceError ''Transform''], (PhysicsSystem_new, [flaggedA, fallen]))"
    by (simp add: first_frame_throws)
  have flagged: "isColliding (body_physics flaggedA)" "velocityX (body_physics flaggedA) = Fin 99"
    "friction (body_physics flaggedA) = Fin (1/10)" "airResistance (body_physics flaggedA) = Fin (1/100)"
    by (simp_all add: flaggedA_def movedA_def scene_defs)
  have sys: "sys_enabled PhysicsSystem_new" "worldBounds PhysicsSystem_new = None"
    by (simp_all add: PhysicsSystem_new_def)
  have two: "velocityX (body_physics (hd (snd (snd (run_frames FrameTimer [frame_time, frame_time]
       ([], (PhysicsSystem_new, [ballA, ballB]))))))) = Fin (891/10)"
    unfolding second_frame_state pair_frame_velocity [OF sys] by (rule flagged_integrate)
  have by_friction: "Fin (891/10) = velocityX (body_physics flaggedA) * (Fin 1 - friction (body_physics flaggedA))"
    unfolding flagged by (simp add: minus_jsnum_def)
  have not_air: "Fin (891/10) \<noteq> velocityX (body_physics flaggedA) * (Fin 1 - airResistance (body_physics flaggedA))"
    unfolding flagged by (simp add: minus_jsnum_def)
  show ?thesis
    using one stop flagged second_frame_state two by_friction not_air by blast
qed

section \<open>Gravity: the entity's own setting\<close>

theorem system_gravity_overrides_entity_witness:
  "\<not> isKinematic (body_physics own_gravity_body) \<and> \<not> isStatic (body_physics own_gravity_body) \<and>
   \<not> isSleeping (body_physics own_gravity_body) \<and>
   impulses (body_physics own_gravity_body) = [] \<and> forces (body_physics own_gravity_body) = [] \<and>
   gravityY (body_physics own_gravity_body) = Fin 100 \<and>
   PhysicsSystem_updateEntityPhysics PhysicsSystem_new (Fin 1)
     (own_gravity_body\<lparr>body_physics := (body_physics own_gravity_body)\<lparr>gravityX := Fin 0, gravityY := Fin 0\<rparr>\<rparr>) =
     PhysicsSystem_updateEntityPhysics PhysicsSystem_new (Fin 1) own_gravity_body \<and>
   PhysicsSystem_updateEntityPhysics PhysicsSystem_new (Fin 1) own_gravity_body =
     own_gravity_body
       \<lparr>body_transform := (body_transform own_gravity_body)\<lparr>pos_y := Fin (4851/5)\<rparr>,
        body_physics := (body_physics own_gravity_body)
          \<lparr>gravityY := Fin 980, velocityY := Fin (4851/5)\<rparr>\<rparr>"
proof -
  let ?own = "body_physics own_gravity_body"
  let ?q = "?own\<lparr>gravityX := sys_gravityX PhysicsSystem_new, gravityY := sys_gravityY PhysicsSystem_new,
       accelerationX := accelerationX ?own + sys_gravityX PhysicsSystem_new * gravityScale ?own,
       accelerationY := accelerationY ?own + sys_gravityY PhysicsSystem_new * gravityScale ?own\<rparr>"
  let ?r = "Physics_new\<lparr>gravityY := Fin 980, accelerationY := Fin 980, velocityY := Fin (4851/5)\<rparr>"
  have dyn: "\<not> isKinematic ?own" "\<not> isStatic ?own" "\<not> isSleeping ?own"
    by (simp_all add: own_gravity_body_def Physics_setGravity_def Physics_new_def)
  have idle: "impulses ?own = []" "forces ?own = []"
    by (simp_all add: own_gravity_body_def Physics_setGravity_def Physics_new_def)
  have own: "gravityY ?own = Fin 100"
    by (simp add: own_gravity_body_def Physics_setGravity_def)
  note inst = system_gravity_overrides_entity [OF dyn, of PhysicsSystem_new "Fin 1" "Fin 0" "Fin 0",
      unfolded Let_def]
  have same: "PhysicsSystem_updateEntityPhysics PhysicsSystem_new (Fin 1)
     (own_gravity_body\<lparr>body_physics := ?own\<lparr>gravityX := Fin 0, gravityY := Fin 0\<rparr>\<rparr>) =
     PhysicsSystem_updateEntityPhysics PhysicsSystem_new (Fin 1) own_gravity_body"
    using inst by blast
  have p1: "apply_friction (update_velocity (Fin 1) (apply_forces (Fin 1) (apply_impulses ?q))) = ?r"
    by (simp add: own_gravity_body_def Physics_setGravity_def Physics_new_def PhysicsSystem_new_def
        apply_impulses_def apply_forces_def update_velocity_def apply_friction_def minus_jsnum_def)
  have sp: "current_speed ?r = Fin \<bar>4851/5\<bar>"
    by (rule current_speed_vertical) (simp_all add: Physics_new_def)
  have p2: "update_angular_velocity (Fin 1) (limit_speed (Fin \<bar>4851/5\<bar>) ?r) = ?r"
    by (simp add: limit_speed_def update_angular_velocity_def Physics_new_def)
  have t1: "update_position (Fin 1) ?r (body_transform own_gravity_body) =
              (body_transform own_gravity_body)\<lparr>pos_y := Fin (4851/5)\<rparr>"
    by (simp add: update_position_def Physics_new_def own_gravity_body_def Transform_new_def)
  have p3: "check_sleep (Fin \<bar>4851/5\<bar>) (reset_acceleration ?r) =
              ?own\<lparr>gravityY := Fin 980, velocityY := Fin (4851/5)\<rparr>"
    by (simp add: check_sleep_def reset_acceleration_def Physics_new_def own_gravity_body_def
        Physics_setGravity_def)
  have step: "PhysicsSystem_updateEntityPhysics PhysicsSystem_new (Fin 1) own_gravity_body =
     own_gravity_body
       \<lparr>body_transform := (body_transform own_gravity_body)\<lparr>pos_y := Fin (4851/5)\<rparr>,
        body_physics := ?own\<lparr>gravityY := Fin 980, velocityY := Fin (4851/5)\<rparr>\<rparr>"
    using inst unfolding p1 sp p2 t1 p3 by blast
  show ?thesis
    using dyn idle own same step by blast
qed

text \<open>
  Claim C2 as stated fails. A body whose own gravity was set to (0, 100) is integrated
  for one second by a system with the default gravity (0, 980): its velocity becomes
  \<open>980 * 0.99 = 970.2\<close>, the system's gravity damped by the default air resistance. Under
  its own gravity \<open>Physics.update\<close> would have given \<open>100 * 0.99 = 99\<close>.
\<close>

theorem entity_gravity_counterexample:
  "gravityY (body_physics own_gravity_body) = Fin 100 \<and>
   velocityY (body_physics (PhysicsSystem_updateEntityPhysics PhysicsSystem_new (Fin 1) own_gravity_body)) =
     Fin (4851/5) \<and>
   velocityY (snd (Physics_update (Fin 1) (body_transform own_gravity_body, body_physics own_gravity_body))) =
     Fin 99"
proof -
  let ?own = "body_physics own_gravity_body"
  let ?p = "?own\<lparr>gravityX := Fin 0, gravityY := Fin 980\<rparr>"
  have dyn: "\<not> isKinematic ?own" "\<not> isStatic ?own" "\<not> isSleeping ?own"
    by (simp_all add: own_gravity_body_def Physics_setGravity_def Physics_new_def)
  have ff: "free_fall ?p" "free_fall ?own"
    by (simp_all add: free_fall_def own_gravity_body_def Physics_setGravity_def Physics_new_def)
  have sys_step: "Physics_update (Fin 1) (body_transform own_gravity_body, ?p) =
      ((body_transform own_gravity_body)\<lparr>pos_y := Fin (0 + (0 + (0 + 980 * 1) * 1) * (1 - 1/100) * 1)\<rparr>,
       ?p\<lparr>velocityY := Fin ((0 + (0 + 980 * 1) * 1) * (1 - 1/100)), accelerationY := Fin 0\<rparr>)"
    by (rule free_fall_step [OF ff(1)])
       (simp_all add: own_gravity_body_def Physics_setGravity_def Physics_new_def Transform_new_def)
  have own_step: "Physics_update (Fin 1) (body_transform own_gravity_body, ?own) =
      ((body_transform own_gravity_body)\<lparr>pos_y := Fin (0 + (0 + (0 + 100 * 1) * 1) * (1 - 1/100) * 1)\<rparr>,
       ?own\<lparr>velocityY := Fin ((0 + (0 + 100 * 1) * 1) * (1 - 1/100)), accelerationY := Fin 0\<rparr>)"
    by (rule free_fall_step [OF ff(2)])
       (simp_all add: own_gravity_body_def Physics_setGravity_def Physics_new_def Transform_new_def)
  have g: "sys_gravityX PhysicsSystem_new = Fin 0" "sys_gravityY PhysicsSystem_new = Fin 980"
    by (simp_all add: PhysicsSystem_new_def)
  have a: "gravityY ?own = Fin 100"
    by (simp add: own_gravity_body_def Physics_setGravity_def)
  have b: "velocityY (body_physics (PhysicsSystem_updateEntityPhysics PhysicsSystem_new (Fin 1) own_gravity_body)) =
     Fin (4851/5)"
    unfolding updateEntityPhysics_dynamic [OF dyn] g sys_step by simp
  have c: "velocityY (snd (Physics_update (Fin 1) (body_transform own_gravity_body, ?own))) = Fin 99"
    unfolding own_step by simp
  show ?thesis using a b c by simp
qed

section \<open>Scheduling, registration and matching\<close>

lemma run_in_order_called:
  "run_in_order run dt ss g = Returns (called, g1) \<Longrightarrow> called = ss"
proof (induction ss arbitrary: g called g1)
  case Nil
  then show ?case by simp
next
  case (Cons s ss)
  show ?case
  proof (cases "run s dt g")
    case (Throws e g2)
    then show ?thesis using Cons.prems by simp
  next
    case R: (Returns g2)
    show ?thesis
    proof (cases "run_in_order run dt ss g2")
      case (Throws e r)
      then show ?thesis using Cons.prems R by simp
    next
      case (Returns r)
      obtain c2 g3 where r: "r = (c2, g3)" by (cases r)
      have "c2 = ss" using Cons.IH [of g2 c2 g3] Returns r by simp
      then show ?thesis using Cons.prems R Returns r by auto
    qed
  qed
qed

lemma run_in_order_called_prefix:
  "run_in_order run dt ss g = Throws e (called, g1) \<Longrightarrow> called \<noteq> [] \<and> take (length called) ss = called"
proof (induction ss arbitrary: g called g1)
  case Nil
  then show ?case by simp
next
  case (Cons s ss)
  show ?case
  proof (cases "run s dt g")
    case (Throws e2 g2)
    then show ?thesis using Cons.prems by auto
  next
    case R: (Returns g2)
    show ?thesis
    proof (cases "run_in_order run dt ss g2")
      case (Throws e2 r)
      obtain c2 g3 where r: "r = (c2, g3)" by (cases r)
      have "take (length c2) ss = c2" using Cons.IH [of g2 c2 g3] Throws r Cons.prems R by simp
      then show ?thesis using Cons.prems R Throws r by auto
    next
      case (Returns r)
      then show ?thesis using Cons.prems R by simp
    qed
  qed
qed

lemma update_systems_runs:
  "update_systems run dt ss (tr, g) =
     (case run_in_order run dt (filter enabled ss) g of
        Returns r \<Rightarrow> Returns (tr @ map (\<lambda>s. Update (sys_name s) dt) (fst r), snd r)
      | Throws e r \<Rightarrow> Throws e (tr @ map (\<lambda>s. Update (sys_name s) dt) (fst r), snd r))"
proof (induction ss arbitrary: tr g)
  case Nil
  then show ?case by simp
next
  case (Cons s ss)
  show ?case
  proof (cases "enabled s")
    case False
    then show ?thesis using Cons.IH [of tr g] by simp
  next
    case True
    show ?thesis
    proof (cases "run s dt g")
      case (Throws e g2)
      then show ?thesis using True by simp
    next
      case (Returns g2)
      then show ?thesis
        using True Cons.IH [of "tr @ [Update (sys_name s) dt]" g2]
        by (simp split: completion.splits)
    qed
  qed
qed

lemma updated_systems_append:
  "updated_systems (xs @ ys) = updated_systems xs @ updated_systems ys"
  by (induction xs rule: updated_systems.induct) simp_all

lemma updated_systems_map:
  "updated_systems (map (\<lambda>s. Update (sys_name s) dt) ss) = map sys_name ss"
  by (induction ss) simp_all

lemmas world_defs = example_world_def scheduled_world_def named_system_def player_def logging_update_def

text \<open>
  Claim C7. One call of \<open>World.update\<close> on a running world sets \<open>lastUpdateTime\<close> and then
  runs the \<open>update\<close> methods of the enabled systems, each on the state the previous one
  left, in the order of a stable sort by priority: the priorities of the systems run
  ascend, whatever the registration order, and systems of equal priority run in their
  registration order. If every method returns, all of them have run, the state returned
  is the one the last of them left and \<open>worldUpdated\<close> is emitted; if one throws, exactly
  the systems up to and including it have run and the exception leaves \<open>World.update\<close>.
\<close>

theorem update_order:
  assumes "isRunning w"
  shows "(let deltaTime = (currentTime - lastUpdateTime w) / 1000;
              ordered = filter enabled (sort_key priority (World_getSystems w));
              w0 = w\<lparr>lastUpdateTime := currentTime\<rparr>
          in World_update run currentTime (w, g) =
               (case run_in_order run deltaTime ordered g of
                  Returns r \<Rightarrow>
                    Returns (w0\<lparr>trace := trace w @ map (\<lambda>s. Update (sys_name s) deltaTime) (fst r) @
                                           [Emit ''worldUpdated'' []]\<rparr>, snd r)
                | Throws e r \<Rightarrow>
                    Throws e (w0\<lparr>trace := trace w @ map (\<lambda>s. Update (sys_name s) deltaTime) (fst r)\<rparr>,
                              snd r)) \<and>
             (\<forall>called g1. run_in_order run deltaTime ordered g = Returns (called, g1) \<longrightarrow>
                called = ordered) \<and>
             (\<forall>e called g1. run_in_order run deltaTime ordered g = Throws e (called, g1) \<longrightarrow>
                called \<noteq> [] \<and> take (length called) ordered = called) \<and>
             sorted (map priority ordered) \<and>
             (\<forall>k. filter (\<lambda>s. priority s = k) ordered =
                   filter (\<lambda>s. priority s = k) (filter enabled (World_getSystems w))) \<and>
             (\<forall>w1 g1. World_update run currentTime (w, g) = Returns (w1, g1) \<longrightarrow>
                run_in_order run deltaTime ordered g = Returns (ordered, g1) \<and>
                updated_systems (trace w1) = updated_systems (trace w) @ map sys_name ordered))"
proof -
  let ?dt = "(currentTime - lastUpdateTime w) / 1000"
  let ?ss = "sort_key priority (World_getSystems w)"
  let ?ord = "filter enabled ?ss"
  let ?w0 = "w\<lparr>lastUpdateTime := currentTime\<rparr>"
  have gs: "World_getSystems ?w0 = World_getSystems w"
    by (simp add: World_getSystems_def)
  have main: "World_update run currentTime (w, g) =
               (case run_in_order run ?dt ?ord g of
                  Returns r \<Rightarrow>
                    Returns (?w0\<lparr>trace := trace w @ map (\<lambda>s. Update (sys_name s) ?dt) (fst r) @
                                           [Emit ''worldUpdated'' []]\<rparr>, snd r)
                | Throws e r \<Rightarrow>
                    Throws e (?w0\<lparr>trace := trace w @ map (\<lambda>s. Update (sys_name s) ?dt) (fst r)\<rparr>,
                              snd r))"
  proof (cases "run_in_order run ?dt ?ord g")
    case (Returns r)
    then show ?thesis using assms
      by (simp add: World_update_def Let_def gs update_systems_runs)
  next
    case (Throws e r)
    then show ?thesis using assms
      by (simp add: World_update_def Let_def gs update_systems_runs)
  qed
  have called: "called = ?ord" if "run_in_order run ?dt ?ord g = Returns (called, g1)" for called g1
    using that by (rule run_in_order_called)
  have pre: "called \<noteq> [] \<and> take (length called) ?ord = called"
    if "run_in_order run ?dt ?ord g = Throws e (called, g1)" for e called g1
    using that by (rule run_in_order_called_prefix)
  have srt: "sorted (map priority ?ord)"
    by (rule sorted_filter) simp
  have stable: "filter (\<lambda>s. priority s = k) ?ord =
           filter (\<lambda>s. priority s = k) (filter enabled (World_getSystems w))" for k
  proof -
    have "filter (\<lambda>s. priority s = k) ?ord = filter enabled (filter (\<lambda>s. priority s = k) ?ss)"
      by (simp add: conj_commute)
    also have "\<dots> = filter enabled (filter (\<lambda>s. priority s = k) (World_getSystems w))"
      by (simp only: sort_key_stable)
    also have "\<dots> = filter (\<lambda>s. priority s = k) (filter enabled (World_getSystems w))"
      by (simp add: conj_commute)
    finally show ?thesis .
  qed
  have ret: "run_in_order run ?dt ?ord g = Returns (?ord, g1) \<and>
             updated_systems (trace w1) = updated_systems (trace w) @ map sys_name ?ord"
    if r: "World_update run currentTime (w, g) = Returns (w1, g1)" for w1 g1
  proof (cases "run_in_order run ?dt ?ord g")
    case (Throws e r2)
    then show ?thesis using r main by simp
  next
    case (Returns r2)
    have c: "fst r2 = ?ord"
      by (rule called [of "fst r2" "snd r2"]) (simp add: Returns)
    have eq: "Returns (w1, g1) =
        Returns (?w0\<lparr>trace := trace w @ map (\<lambda>s. Update (sys_name s) ?dt) (fst r2) @
                               [Emit ''worldUpdated'' []]\<rparr>, snd r2)"
      using r main by (simp add: Returns)
    then have g1: "snd r2 = g1" by simp
    from eq have "w1 = ?w0\<lparr>trace := trace w @ map (\<lambda>s. Update (sys_name s) ?dt) (fst r2) @
                               [Emit ''worldUpdated'' []]\<rparr>" by simp
    then have tr: "trace w1 = trace w @ map (\<lambda>s. Update (sys_name s) ?dt) ?ord @ [Emit ''worldUpdated'' []]"
      by (simp add: c)
    have a: "run_in_order run ?dt ?ord g = Returns (?ord, g1)"
      using Returns c g1 by (simp add: prod_eq_iff)
    have b: "updated_systems (trace w1) = updated_systems (trace w) @ map sys_name ?ord"
      by (simp only: tr updated_systems_append updated_systems_map) simp
    show ?thesis using a b by (rule conjI)
  qed
  show ?thesis
    unfolding Let_def
  proof (intro conjI allI impI)
    show "World_update run currentTime (w, g) =
               (case run_in_order run ?dt ?ord g of
                  Returns r \<Rightarrow>
                    Returns (?w0\<lparr>trace := trace w @ map (\<lambda>s. Update (sys_name s) ?dt) (fst r) @
                                           [Emit ''worldUpdated'' []]\<rparr>, snd r)
                | Throws e r \<Rightarrow>
                    Throws e (?w0\<lparr>trace := trace w @ map (\<lambda>s. Update (sys_name s) ?dt) (fst r)\<rparr>,
                              snd r))"
      by (rule main)
    show "sorted (map priority ?ord)" by (rule srt)
  qed (use called pre stable ret in blast)+
qed

theorem update_order_witness:
  "isRunning scheduled_world \<and>
   World_update logging_update 16 (scheduled_world, []) =
     Returns (scheduled_world\<lparr>lastUpdateTime := 16,
                trace := [Update ''Input'' (2/125), Update ''Move'' (2/125), Update ''Score'' (2/125),
                          Update ''Render'' (2/125), Emit ''worldUpdated'' []]\<rparr>,
              [''Input'', ''Move'', ''Score'', ''Render''])"
proof -
  have run: "isRunning scheduled_world" by (simp add: world_defs)
  have dt: "(16 - lastUpdateTime scheduled_world) / 1000 = 2/125" by (simp add: world_defs)
  have ord: "filter enabled (sort_key priority (World_getSystems scheduled_world)) =
      [named_system ''Input'' 10, named_system ''Move'' 50, named_system ''Score'' 50,
       named_system ''Render'' 100]"
    by (simp add: World_getSystems_def scheduled_world_def named_system_def)
  have rio: "run_in_order logging_update (2/125)
      [named_system ''Input'' 10, named_system ''Move'' 50, named_system ''Score'' 50,
       named_system ''Render'' 100] [] =
      Returns ([named_system ''Input'' 10, named_system ''Move'' 50, named_system ''Score'' 50,
                named_system ''Render'' 100], [''Input'', ''Move'', ''Score'', ''Render''])"
    by (simp add: logging_update_def named_system_def)
  have tr: "trace scheduled_world = []" by (simp add: scheduled_world_def)
  have upd: "World_update logging_update 16 (scheduled_world, []) =
     Returns (scheduled_world\<lparr>lastUpdateTime := 16,
                trace := [Update ''Input'' (2/125), Update ''Move'' (2/125), Update ''Score'' (2/125),
                          Update ''Render'' (2/125), Emit ''worldUpdated'' []]\<rparr>,
              [''Input'', ''Move'', ''Score'', ''Render''])"
    using update_order [OF run, where run = logging_update and currentTime = 16 and g = "[]",
        unfolded Let_def dt ord rio, THEN conjunct1]
    by (simp add: tr named_system_def)
  show ?thesis using run upd by simp
qed

lemma addEntity_registers:
  "fst (World_addEntity e w) \<Longrightarrow> map_of (entities (snd (World_addEntity e w))) (ent_id e) \<noteq> None"
  by (auto simp add: World_addEntity_def Let_def map_of_append map_add_def split: if_splits)

lemma addSystem_registers:
  "fst (World_addSystem s w) \<Longrightarrow> map_of (systems (snd (World_addSystem s w))) (sys_name s) \<noteq> None"
  by (auto simp add: World_addSystem_def Let_def map_of_append map_add_def split: if_splits)

text \<open>
  Claim C8. \<open>addEntity\<close> with an id that is already registered, and \<open>addSystem\<close> with a
  system name that is already registered, return \<open>false\<close> and leave the world as it was:
  registries, counter and trace (no hook is called, no event emitted). In particular a
  second registration under the id or name of a successful one is rejected.
\<close>

theorem duplicate_registration_rejected:
  "(map_of (entities w) (ent_id e) \<noteq> None \<longrightarrow> World_addEntity e w = (False, w)) \<and>
   (map_of (systems w) (sys_name s) \<noteq> None \<longrightarrow> World_addSystem s w = (False, w)) \<and>
   (fst (World_addEntity e w) \<and> ent_id e1 = ent_id e \<longrightarrow>
      World_addEntity e1 (snd (World_addEntity e w)) = (False, snd (World_addEntity e w))) \<and>
   (fst (World_addSystem s w) \<and> sys_name s1 = sys_name s \<longrightarrow>
      World_addSystem s1 (snd (World_addSystem s w)) = (False, snd (World_addSystem s w)))"
proof (intro conjI impI)
  assume "map_of (entities w) (ent_id e) \<noteq> None"
  then show "World_addEntity e w = (False, w)" by (simp add: World_addEntity_def)
next
  assume "map_of (systems w) (sys_name s) \<noteq> None"
  then show "World_addSystem s w = (False, w)" by (simp add: World_addSystem_def Let_def)
next
  assume a: "fst (World_addEntity e w) \<and> ent_id e1 = ent_id e"
  then have "map_of (entities (snd (World_addEntity e w))) (ent_id e1) \<noteq> None"
    using addEntity_registers [of e w] by simp
  then show "World_addEntity e1 (snd (World_addEntity e w)) = (False, snd (World_addEntity e w))"
    by (simp add: World_addEntity_def [of e1])
next
  assume a: "fst (World_addSystem s w) \<and> sys_name s1 = sys_name s"
  then have "map_of (systems (snd (World_addSystem s w))) (sys_name s1) \<noteq> None"
    using addSystem_registers [of s w] by simp
  then show "World_addSystem s1 (snd (World_addSystem s w)) = (False, snd (World_addSystem s w))"
    by (simp add: World_addSystem_def [of s1] Let_def)
qed

theorem duplicate_registration_rejected_witness:
  "map_of (entities example_world) (ent_id (player\<lparr>components := []\<rparr>)) = Some player \<and>
   World_addEntity (player\<lparr>components := []\<rparr>) example_world = (False, example_world) \<and>
   map_of (systems example_world) (sys_name (named_system ''Move'' 7)) = Some (named_system ''Move'' 50) \<and>
   World_addSystem (named_system ''Move'' 7) example_world = (False, example_world) \<and>
   fst (World_addEntity (player\<lparr>ent_id := ''e2''\<rparr>) example_world) \<and>
   World_addEntity (player\<lparr>ent_id := ''e2'', ent_enabled := False\<rparr>)
       (snd (World_addEntity (player\<lparr>ent_id := ''e2''\<rparr>) example_world)) =
     (False, snd (World_addEntity (player\<lparr>ent_id := ''e2''\<rparr>) example_world)) \<and>
   fst (World_addSystem (named_system ''Score'' 50) example_world) \<and>
   World_addSystem (named_system ''Score'' 1)
       (snd (World_addSystem (named_system ''Score'' 50) example_world)) =
     (False, snd (World_addSystem (named_system ''Score'' 50) example_world))"
proof -
  have a: "fst (World_addEntity (player\<lparr>ent_id := ''e2''\<rparr>) example_world)"
    by (simp add: World_addEntity_def Let_def world_defs)
  have b: "fst (World_addSystem (named_system ''Score'' 50) example_world)"
    by (simp add: World_addSystem_def Let_def world_defs)
  show ?thesis
    using a b
      duplicate_registration_rejected [of example_world "player\<lparr>components := []\<rparr>" "named_system ''Move'' 7"]
      duplicate_registration_rejected [of example_world "player\<lparr>ent_id := ''e2''\<rparr>" "named_system ''Score'' 50"
        "player\<lparr>ent_id := ''e2'', ent_enabled := False\<rparr>" "named_system ''Score'' 1"]
    by (simp add: world_defs)
qed

lemma removeComponent_drops:
  "\<not> Entity_hasComponent c (snd (Entity_removeComponent c e))"
  by (simp add: Entity_removeComponent_def Entity_hasComponent_def delete_conv' split: option.splits)

text \<open>
  Claim C3, as amended. A system that requires the components \<open>A\<close> and \<open>B\<close> matches an
  entity exactly when the entity is enabled and owns both. Removing a required component
  from an entity makes \<open>matches\<close> false for it. \<open>Entity.removeComponent\<close> on a registered
  entity leaves the world holding the entity without that component and calls no hook of
  any system: the world's trace, and so the number of \<open>onEntityRemoved\<close> calls, is as
  before.
\<close>

theorem matching_and_component_removal:
  "(requiredComponents sys = [A, B] \<longrightarrow>
      System_matches sys e = (ent_enabled e \<and> Entity_hasComponent A e \<and> Entity_hasComponent B e)) \<and>
   (c \<in> set (requiredComponents sys) \<longrightarrow>
      \<not> System_matches sys (snd (Entity_removeComponent c e))) \<and>
   (World_entity_removeComponent entityId c w = Returns (removed, w1) \<longrightarrow>
      trace w1 = trace w \<and> systems w1 = systems w \<and>
      removed_calls n entityId (trace w1) = removed_calls n entityId (trace w) \<and>
      (\<exists>e0. map_of (entities w) entityId = Some e0 \<and>
            map_of (entities w1) entityId = Some (snd (Entity_removeComponent c e0))))"
proof (intro conjI impI)
  assume "requiredComponents sys = [A, B]"
  then show "System_matches sys e = (ent_enabled e \<and> Entity_hasComponent A e \<and> Entity_hasComponent B e)"
    by (simp add: System_matches_def)
next
  assume "c \<in> set (requiredComponents sys)"
  then show "\<not> System_matches sys (snd (Entity_removeComponent c e))"
    using removeComponent_drops [of c e]
    by (auto simp add: System_matches_def list_all_iff)
next
  assume r: "World_entity_removeComponent entityId c w = Returns (removed, w1)"
  then have "trace w1 = trace w \<and> systems w1 = systems w"
    by (auto simp add: World_entity_removeComponent_def split: option.splits prod.splits)
  then show "trace w1 = trace w" "systems w1 = systems w"
    "removed_calls n entityId (trace w1) = removed_calls n entityId (trace w)"
    by simp_all
  show "\<exists>e0. map_of (entities w) entityId = Some e0 \<and>
          map_of (entities w1) entityId = Some (snd (Entity_removeComponent c e0))"
    using r
    by (auto simp add: World_entity_removeComponent_def update_conv' split: option.splits prod.splits)
qed

theorem matching_and_component_removal_witness:
  "requiredComponents (named_system ''Move'' 50) = [''A'', ''B''] \<and>
   System_matches (named_system ''Move'' 50) player \<and>
   ''A'' \<in> set (requiredComponents (named_system ''Move'' 50)) \<and>
   \<not> System_matches (named_system ''Move'' 50) (snd (Entity_removeComponent ''A'' player)) \<and>
   World_entity_removeComponent ''e1'' ''A'' example_world =
     Returns (True, example_world\<lparr>entities := [(''e1'', player\<lparr>components := [(''B'', ())]\<rparr>)]\<rparr>) \<and>
   trace (example_world\<lparr>entities := [(''e1'', player\<lparr>components := [(''B'', ())]\<rparr>)]\<rparr>) = trace example_world"
proof -
  have rc: "World_entity_removeComponent ''e1'' ''A'' example_world =
     Returns (True, example_world\<lparr>entities := [(''e1'', player\<lparr>components := [(''B'', ())]\<rparr>)]\<rparr>)"
    by (simp add: World_entity_removeComponent_def Entity_removeComponent_def world_defs)
  show ?thesis
    using rc matching_and_component_removal [of "named_system ''Move'' 50" "''A''" "''B''" player "''A''"
        "''e1''" example_world True "example_world\<lparr>entities := [(''e1'', player\<lparr>components := [(''B'', ())]\<rparr>)]\<rparr>"]
    by (simp add: world_defs Entity_hasComponent_def)
qed

text \<open>
  Claim C3 as stated fails. The system \<open>Move\<close> matches the entity; after
  \<open>removeComponent(A)\<close> it no longer does, and \<open>onEntityRemoved\<close> has been called zero
  times, not once. The hook is called by \<open>World.removeEntity\<close>, once for this system.
\<close>

theorem component_removal_counterexample:
  "System_matches (named_system ''Move'' 50) player \<and>
   World_entity_removeComponent ''e1'' ''A'' example_world =
     Returns (True, example_world\<lparr>entities := [(''e1'', player\<lparr>components := [(''B'', ())]\<rparr>)]\<rparr>) \<and>
   \<not> System_matches (named_system ''Move'' 50) (player\<lparr>components := [(''B'', ())]\<rparr>) \<and>
   removed_calls ''Move'' ''e1''
     (trace (example_world\<lparr>entities := [(''e1'', player\<lparr>components := [(''B'', ())]\<rparr>)]\<rparr>)) = 0 \<and>
   removed_calls ''Move'' ''e1'' (trace (snd (World_removeEntity ''e1'' example_world))) = 1"
  by (simp add: World_entity_removeComponent_def Entity_removeComponent_def System_matches_def
      Entity_hasComponent_def removed_calls_def World_removeEntity_def World_getSystems_def
      Let_def world_defs)

section \<open>The narrow phase away from coincident centres\<close>

text \<open>
  What \<open>performShapeCollision\<close> does on every other input: a pair with a shape that is
  not a circle gives \<open>null\<close>; two circles at finite, distinct centres collide exactly
  when the centre distance is less than the radius sum, with the unit normal from the
  first centre to the second and depth \<open>radiusSum - distance\<close>.
\<close>

lemma non_circle_no_collision:
  "collisionShape p \<noteq> ''circle'' \<or> collisionShape q \<noteq> ''circle'' \<Longrightarrow>
   Physics_performShapeCollision p q t u = None"
  by (auto simp add: Physics_performShapeCollision_def Let_def)

lemma circle_collision_exact:
  assumes shapes: "collisionShape p = ''circle''" "collisionShape q = ''circle''"
    and pos: "Transform_getWorldPosition t = \<lparr>pt_x = Fin x1, pt_y = Fin y1\<rparr>"
      "Transform_getWorldPosition u = \<lparr>pt_x = Fin x2, pt_y = Fin y2\<rparr>"
    and radii: "collisionRadius p = Fin r1" "collisionRadius q = Fin r2"
    and apart: "x1 \<noteq> x2 \<or> y1 \<noteq> y2"
    and d: "d = sqrt ((x2 - x1) * (x2 - x1) + (y2 - y1) * (y2 - y1))"
  shows "Physics_performShapeCollision p q t u =
           (if d < r1 + r2
            then Some \<lparr>normalX = Fin ((x2 - x1) / d), normalY = Fin ((y2 - y1) / d),
                       depth = Fin (r1 + r2 - d),
                       point = Some \<lparr>pt_x = Fin (x1 + (x2 - x1) / d * r1),
                                     pt_y = Fin (y1 + (y2 - y1) / d * r1)\<rparr>\<rparr>
            else None) \<and>
         ((x2 - x1) / d) * ((x2 - x1) / d) + ((y2 - y1) / d) * ((y2 - y1) / d) = 1"
proof -
  let ?dx = "x2 - x1" and ?dy = "y2 - y1"
  have pos_sum: "0 < ?dx * ?dx + ?dy * ?dy"
    using apart by (auto simp add: sum_squares_gt_zero_iff)
  then have dpos: "0 < d" unfolding d by simp
  have dd: "d * d = ?dx * ?dx + ?dy * ?dy"
    unfolding d using pos_sum by simp
  have unit: "(?dx / d) * (?dx / d) + (?dy / d) * (?dy / d) = 1"
  proof -
    have "(?dx / d) * (?dx / d) + (?dy / d) * (?dy / d) = (?dx * ?dx + ?dy * ?dy) / (d * d)"
      by (simp add: add_divide_distrib)
    also have "\<dots> = (d * d) / (d * d)" by (simp only: dd)
    also have "\<dots> = 1" using dpos by simp
    finally show ?thesis .
  qed
  have "Physics_performShapeCollision p q t u =
           (if d < r1 + r2
            then Some \<lparr>normalX = Fin (?dx / d), normalY = Fin (?dy / d),
                       depth = Fin (r1 + r2 - d),
                       point = Some \<lparr>pt_x = Fin (x1 + ?dx / d * r1),
                                     pt_y = Fin (y1 + ?dy / d * r1)\<rparr>\<rparr>
            else None)"
  proof -
    have nonneg: "\<not> ?dx * ?dx + ?dy * ?dy < 0" using pos_sum by simp
    have dne: "d \<noteq> 0" using dpos by simp
    show ?thesis
      by (simp add: Physics_performShapeCollision_def Let_def shapes pos radii minus_jsnum_def
          nonneg d [symmetric] dne)
  qed
  then show ?thesis using unit by simp
qed

end
